theory Spec2Isabelle
  imports Main
begin

section \<open>Telewrapper: the routing layer of \<^verbatim>\<open>src/index.ts\<close>\<close>

text \<open>
  The class \<^verbatim>\<open>TeleWrapper\<close> is embedded with explicit state passing. Calls that
  leave the class (the platform client \<^verbatim>\<open>core\<close>, the logger, the timer and the
  callbacks registered by the application) are recorded, in order, as a list of effects.
  A synchronous exception is the result \<open>None\<close> of a run; the effects issued before it
  are kept.

  Conventions of the embedding:
  \<^item> JavaScript numbers that hold identifiers, timestamps and lengths are \<open>int\<close>;
  \<^item> strings are \<open>string\<close>; \<^verbatim>\<open>\w\<close> is the ASCII class \<^verbatim>\<open>[A-Za-z0-9_]\<close>, and
    \<^verbatim>\<open>toLocaleLowerCase\<close> is taken in a locale that folds the ASCII letters the usual
    way (it is only ever applied to strings of word characters);
  \<^item> a \<^verbatim>\<open>RegExp\<close> handed to \<^verbatim>\<open>onRegex\<close> is an object of the application, held
    by reference; \<^verbatim>\<open>exec\<close> reads and writes its \<^verbatim>\<open>lastIndex\<close> when the object has
    the \<^verbatim>\<open>g\<close> or the \<^verbatim>\<open>y\<close> flag;
  \<^item> an application callback is a function giving its outcome (returns or throws, and the
    value returned where the wrapper reads it); callbacks do not re-enter the wrapper
    and do not touch the \<^verbatim>\<open>RegExp\<close> objects;
  \<^item> the texts of diagnostics are recorded up to their constant prefix;
  \<^item> an asynchronous call that is not awaited contributes the effects it issues before
    its first suspension; one asynchronous method runs without interleaving of another.
\<close>

subsection \<open>Strings\<close>

definition is_word_char :: "char \<Rightarrow> bool" where
  "is_word_char c =
     (let n = (of_char c :: nat)
      in (48 \<le> n \<and> n \<le> 57) \<or> (65 \<le> n \<and> n \<le> 90) \<or> n = 95 \<or> (97 \<le> n \<and> n \<le> 122))"

definition toLowerChar :: "char \<Rightarrow> char" where
  "toLowerChar c =
     (let n = (of_char c :: nat) in if 65 \<le> n \<and> n \<le> 90 then char_of (n + 32) else c)"

definition toLocaleLowerCase :: "string \<Rightarrow> string" where
  "toLocaleLowerCase s = map toLowerChar s"

text \<open>\<^verbatim>\<open>String.prototype.includes\<close>.\<close>

fun str_includes :: "string \<Rightarrow> string \<Rightarrow> bool" where
  "str_includes [] sub = (sub = [])"
| "str_includes (c # cs) sub = (take (length sub) (c # cs) = sub \<or> str_includes cs sub)"

text \<open>\<^verbatim>\<open>new RegExp('^/\\w+').exec(text)\<close>: the matched text \<^verbatim>\<open>res[0]\<close>, or \<open>None\<close> for null.\<close>

definition exec_slash_word :: "string \<Rightarrow> string option" where
  "exec_slash_word txt =
     (case txt of
        [] \<Rightarrow> None
      | c # rest \<Rightarrow>
          if c = CHR ''/'' \<and> takeWhile is_word_char rest \<noteq> []
          then Some (c # takeWhile is_word_char rest) else None)"

definition extractCommand :: "string \<Rightarrow> string" where
  "extractCommand txt = (case exec_slash_word txt of Some res \<Rightarrow> drop 1 res | None \<Rightarrow> [])"

text \<open>\<^verbatim>\<open>command.match('\\W+')\<close> is truthy when some character is not a word character.\<close>

definition match_nonword :: "string \<Rightarrow> bool" where
  "match_nonword s = list_ex (\<lambda>c. \<not> is_word_char c) s"

text \<open>\<^verbatim>\<open>text.replace(/[^ ]+ ?/, '')\<close>: the first run of non-space characters and one space
  after it are removed; a text of spaces only is unchanged.\<close>

definition remove_first_word :: "string \<Rightarrow> string" where
  "remove_first_word s =
     (let lead = takeWhile (\<lambda>c. c = CHR '' '') s;
          rest = dropWhile (\<lambda>c. c \<noteq> CHR '' '') (dropWhile (\<lambda>c. c = CHR '' '') s)
      in lead @ (case rest of [] \<Rightarrow> [] | c # cs \<Rightarrow> cs))"

text \<open>\<^verbatim>\<open>answer.replace(/^!/, '')\<close> and \<^verbatim>\<open>answer.match(/^!/)\<close>.\<close>

definition starts_with_bang :: "string \<Rightarrow> bool" where
  "starts_with_bang s = (case s of [] \<Rightarrow> False | c # cs \<Rightarrow> c = CHR ''!'')"

definition strip_bang :: "string \<Rightarrow> string" where
  "strip_bang s = (if starts_with_bang s then drop 1 s else s)"

subsection \<open>Plain objects used as dictionaries\<close>

text \<open>
  \<^verbatim>\<open>commandList\<close> and \<^verbatim>\<open>buttonList\<close> are object literals \<^verbatim>\<open>{}\<close>, read with
  \<^verbatim>\<open>obj[key]\<close> and written with \<^verbatim>\<open>obj[key] = descriptor\<close>. A read that finds no own
  property continues along the prototype chain, which ends in \<^verbatim>\<open>Object.prototype\<close>;
  a write to the key \<^verbatim>\<open>__proto__\<close> replaces the object's prototype by the descriptor
  instead of creating a property.
\<close>

definition object_prototype_keys :: "string list" where
  "object_prototype_keys =
     [''constructor'', ''__defineGetter__'', ''__defineSetter__'', ''hasOwnProperty'',
      ''__lookupGetter__'', ''__lookupSetter__'', ''isPrototypeOf'', ''propertyIsEnumerable'',
      ''toString'', ''valueOf'', ''__proto__'', ''toLocaleString'']"

record 'd js_dict =
  own :: "string \<rightharpoonup> 'd"
  proto :: "'d option"

text \<open>The value of a read: a descriptor, another truthy value (whose \<^verbatim>\<open>callback\<close>
  property is undefined), or a falsy value (undefined or the empty string).\<close>

datatype 'd js_lookup = Entry 'd | Truthy | Falsy

definition js_empty :: "'d js_dict" where
  "js_empty = \<lparr>own = Map.empty, proto = None\<rparr>"

definition js_inherited :: "string \<Rightarrow> 'd js_lookup" where
  "js_inherited k = (if k \<in> set object_prototype_keys then Truthy else Falsy)"

definition js_get :: "('d \<Rightarrow> string \<Rightarrow> bool option) \<Rightarrow> 'd js_dict \<Rightarrow> string \<Rightarrow> 'd js_lookup" where
  "js_get props obj k =
     (case own obj k of
        Some d \<Rightarrow> Entry d
      | None \<Rightarrow>
          (case proto obj of
             None \<Rightarrow> js_inherited k
           | Some p \<Rightarrow>
               if k = ''__proto__'' then Entry p
               else (case props p k of
                       Some b \<Rightarrow> if b then Truthy else Falsy
                     | None \<Rightarrow> js_inherited k)))"

definition js_set :: "'d js_dict \<Rightarrow> string \<Rightarrow> 'd \<Rightarrow> 'd js_dict" where
  "js_set obj k d =
     (if k = ''__proto__'' then obj\<lparr>proto := Some d\<rparr> else obj\<lparr>own := (own obj)(k \<mapsto> d)\<rparr>)"

definition truthy :: "'d js_lookup \<Rightarrow> bool" where
  "truthy v = (case v of Falsy \<Rightarrow> False | _ \<Rightarrow> True)"

subsection \<open>Effects and runs\<close>

datatype effect =
    Log string
  | Core_sendMessage int string
  | Core_deleteMessage int int
  | Core_answerCallbackQuery string "string option" "bool option"
  | Timer nat
  | Invoke_command string
  | Invoke_regex nat bool "string list"
  | Call_command string
  | Call_regex bool "string list"
  | Call_audio nat bool
  | Call_any nat bool
  | Call_invalid nat bool
  | Call_button string

text \<open>
  \<open>Invoke_command key\<close> is the call \<^verbatim>\<open>commandList[key].callback(msg)\<close> of the bound
  action a registration stores, \<open>Invoke_regex i handled result\<close> the call
  \<^verbatim>\<open>regexList[i].callback(msg, handled, result)\<close>. \<open>Call_command content\<close> and
  \<open>Call_regex handled result\<close> are the calls of the application's own callbacks that the
  bound actions make once the authorization gate has let the event through.
  \<open>Call_audio\<close>, \<open>Call_any\<close>, \<open>Call_invalid\<close> carry the index of the handler in its list,
  \<open>Call_button\<close> the key of the button.
\<close>

type_synonym 'a run = "effect list \<times> 'a option"

definition run_return :: "'a \<Rightarrow> 'a run" where
  "run_return x = ([], Some x)"

definition run_throw :: "'a run" where
  "run_throw = ([], None)"

definition run_emit :: "effect list \<Rightarrow> unit run" where
  "run_emit es = (es, Some ())"

definition run_bind :: "'a run \<Rightarrow> ('a \<Rightarrow> 'b run) \<Rightarrow> 'b run" where
  "run_bind m f =
     (case snd m of
        None \<Rightarrow> (fst m, None)
      | Some x \<Rightarrow> (fst m @ fst (f x), snd (f x)))"

definition run_then :: "unit run \<Rightarrow> 'b run \<Rightarrow> 'b run" where
  "run_then m k = run_bind m (\<lambda>_. k)"

subsection \<open>Events, handler descriptors and the state of the wrapper\<close>

text \<open>
  A \<^verbatim>\<open>TelegramBot.Message\<close>, with the fields the wrapper reads: \<open>chat_id\<close> is
  \<^verbatim>\<open>msg.chat.id\<close>, \<open>date\<close> is in seconds, \<open>voice\<close> and \<open>audio\<close> say whether those
  properties are present, \<open>reply_username\<close> is \<^verbatim>\<open>msg.reply_to_message?.from?.username\<close>.
\<close>

record message =
  message_id :: int
  chat_id :: int
  date :: int
  msg_text :: "string option"
  voice :: bool
  audio :: bool
  reply_username :: "string option"

record callback_query =
  query_id :: string
  query_data :: "string option"
  query_message :: "message option"

text \<open>A parameter of type \<^verbatim>\<open>number[] | number\<close>.\<close>

datatype chat_arg = Ids "int list" | Id int

fun to_ids :: "chat_arg \<Rightarrow> int list" where
  "to_ids (Ids l) = l"
| "to_ids (Id n) = [n]"

datatype outcome = Returns | Throws

datatype button_result = Str string | Void | Promise | Button_throws

type_synonym CommandCallback = "message \<Rightarrow> string \<Rightarrow> outcome"
type_synonym RegexCallback = "message \<Rightarrow> bool \<Rightarrow> string list \<Rightarrow> outcome"
type_synonym AnyCallback = "message \<Rightarrow> bool \<Rightarrow> outcome"
type_synonym InvalidCallback = "message \<Rightarrow> bool \<Rightarrow> bool option"
type_synonym ButtonCallback = "callback_query \<Rightarrow> button_result"

text \<open>
  A \<^verbatim>\<open>RegExp\<close> object. \<open>re_search t i\<close> is what the pattern finds in the text \<open>t\<close>
  when the matcher starts at index \<open>i\<close> (with the \<^verbatim>\<open>y\<close> flag, at \<open>i\<close> itself): the
  array \<^verbatim>\<open>exec\<close> returns and the index where the match ends, or \<open>None\<close>.
\<close>

record RegExp =
  re_search :: "string \<Rightarrow> nat \<Rightarrow> (string list \<times> nat) option"
  re_global :: bool
  re_sticky :: bool
  lastIndex :: nat

text \<open>
  \<^verbatim>\<open>RegExp.prototype.exec\<close>: the result and the object as the call leaves it. With the
  \<^verbatim>\<open>g\<close> or the \<^verbatim>\<open>y\<close> flag the matcher starts at \<^verbatim>\<open>lastIndex\<close>, which becomes the end
  of the match, or 0 when nothing is found; without them it starts at 0 and
  \<^verbatim>\<open>lastIndex\<close> is left alone.
\<close>

definition RegExp_exec :: "RegExp \<Rightarrow> string \<Rightarrow> string list option \<times> RegExp" where
  "RegExp_exec re s =
     (if re_global re \<or> re_sticky re
      then (if lastIndex re > length s then (None, re\<lparr>lastIndex := 0\<rparr>)
            else (case re_search re s (lastIndex re) of
                    None \<Rightarrow> (None, re\<lparr>lastIndex := 0\<rparr>)
                  | Some (result, e) \<Rightarrow> (Some result, re\<lparr>lastIndex := e\<rparr>)))
      else (case re_search re s 0 of
              None \<Rightarrow> (None, re)
            | Some (result, e) \<Rightarrow> (Some result, re)))"

text \<open>
  The closures \<^verbatim>\<open>commandBase.bind(this, ids, callback)\<close> and
  \<^verbatim>\<open>regexBase.bind(this, chatIDs, callback)\<close>, as the data they capture.
\<close>

datatype command_action = CommandBase "int list" CommandCallback
datatype regex_action = RegexBase chat_arg RegexCallback

record ICommand =
  command :: string
  cmd_chatIDs :: "int list"
  cmd_desc :: string
  cmd_callback :: command_action

text \<open>\<open>regex\<close> is the reference to the \<^verbatim>\<open>RegExp\<close> object.\<close>

record IRegexCmd =
  regex :: nat
  re_chatIDs :: "int list"
  re_desc :: string
  re_callback :: regex_action

record IAnyCmd =
  any_chatIDs :: "int list"
  any_callback :: AnyCallback

record IInvalidCmd =
  inv_callback :: InvalidCallback

record IButtonCmd =
  btn_name :: string
  btn_callback :: ButtonCallback

text \<open>The properties a descriptor has of its own, when it stands in a prototype chain,
  with the truthiness of their values.\<close>

definition ICommand_props :: "ICommand \<Rightarrow> string \<Rightarrow> bool option" where
  "ICommand_props d k =
     (if k = ''command'' then Some (command d \<noteq> [])
      else if k = ''desc'' then Some (cmd_desc d \<noteq> [])
      else if k = ''chatIDs'' \<or> k = ''callback'' then Some True
      else None)"

definition IButtonCmd_props :: "IButtonCmd \<Rightarrow> string \<Rightarrow> bool option" where
  "IButtonCmd_props d k =
     (if k = ''name'' then Some (btn_name d \<noteq> [])
      else if k = ''callback'' then Some True
      else None)"

text \<open>\<open>botInfo\<close> is \<open>None\<close> until \<^verbatim>\<open>getMe\<close> has answered, then the bot's optional
  \<^verbatim>\<open>username\<close>. \<open>startTime\<close> is \<^verbatim>\<open>startTime.getTime()\<close>, in milliseconds.
  \<open>regexps\<close> is no field of the class: it holds the \<^verbatim>\<open>RegExp\<close> objects of the
  application, by reference, so that two registrations of one object share its
  \<^verbatim>\<open>lastIndex\<close>.\<close>

record wrapper =
  validChats :: "int list"
  botInfo :: "string option option"
  startTime :: int
  messageListLength :: int
  debugChat :: int
  commandList :: "ICommand js_dict"
  buttonList :: "IButtonCmd js_dict"
  regexList :: "IRegexCmd list"
  anyList :: "IAnyCmd list"
  audioList :: "IAnyCmd list"
  invalidList :: "IInvalidCmd list"
  messageList :: "message list"
  regexps :: "nat \<Rightarrow> RegExp"

text \<open>A pattern that matches nothing: what a reference holds before the application has
  made an object for it.\<close>

definition no_RegExp :: RegExp where
  "no_RegExp = \<lparr>re_search = (\<lambda>t i. None), re_global = False, re_sticky = False, lastIndex = 0\<rparr>"

text \<open>The application evaluates a \<^verbatim>\<open>RegExp\<close> literal or constructor: reference \<open>r\<close>
  now holds the object \<open>re\<close>.\<close>

definition new_RegExp :: "wrapper \<Rightarrow> nat \<Rightarrow> RegExp \<Rightarrow> wrapper" where
  "new_RegExp st r re = st\<lparr>regexps := (regexps st)(r := re)\<rparr>"

text \<open>The state the constructor leaves, for a process started at \<open>now\<close>.\<close>

definition new_wrapper :: "int \<Rightarrow> wrapper" where
  "new_wrapper now =
     \<lparr>validChats = [], botInfo = None, startTime = now, messageListLength = 1000,
      debugChat = 0, commandList = js_empty, buttonList = js_empty, regexList = [],
      anyList = [], audioList = [], invalidList = [], messageList = [],
      regexps = (\<lambda>r. no_RegExp)\<rparr>"

definition setDebugChat :: "wrapper \<Rightarrow> int \<Rightarrow> wrapper" where
  "setDebugChat st chatID = st\<lparr>debugChat := chatID\<rparr>"

subsection \<open>Outbox history\<close>

text \<open>
  \<^verbatim>\<open>Array.prototype.slice(start, end)\<close> on integral arguments: a negative index counts
  from the end, and both are clamped to the array.
\<close>

definition slice :: "'a list \<Rightarrow> int \<Rightarrow> int \<Rightarrow> 'a list" where
  "slice xs start fin =
     (let len = int (length xs);
          k = (if start < 0 then max (len + start) 0 else min start len);
          final = (if fin < 0 then max (len + fin) 0 else min fin len)
      in take (nat (final - k)) (drop (nat k) xs))"

text \<open>
  \<^verbatim>\<open>slice\<close> first truncates a fractional argument toward zero. The start index of
  \<^verbatim>\<open>messageListAppend\<close> is \<^verbatim>\<open>length - messageListLength / 10\<close>, that is
  \<open>(10 * length - messageListLength) / 10\<close>: \<open>trunc_tenths\<close> is the truncation of
  \<open>a / 10\<close>.
\<close>

definition trunc_tenths :: "int \<Rightarrow> int" where
  "trunc_tenths a = (if a < 0 then - ((- a) div 10) else a div 10)"

definition messageListAppend :: "wrapper \<Rightarrow> message \<Rightarrow> wrapper" where
  "messageListAppend st msg =
     (let pushed = messageList st @ [msg]; len = int (length pushed)
      in if len \<ge> messageListLength st
         then st\<lparr>messageList := slice pushed (trunc_tenths (10 * len - messageListLength st)) len\<rparr>
         else st\<lparr>messageList := pushed\<rparr>)"

definition messageEqual :: "message \<Rightarrow> message \<Rightarrow> bool" where
  "messageEqual msg1 msg2 = (chat_id msg1 = chat_id msg2 \<and> message_id msg1 = message_id msg2)"

text \<open>\<^verbatim>\<open>deleteMessage\<close> of one defined message: the request leaves at once.\<close>

definition deleteMessage :: "message \<Rightarrow> effect list" where
  "deleteMessage msg = [Core_deleteMessage (chat_id msg) (message_id msg)]"

text \<open>\<^verbatim>\<open>!exclude_msgs?.find(msg => this.messageEqual(msg, value))\<close>.\<close>

definition not_excluded :: "message list option \<Rightarrow> message \<Rightarrow> bool" where
  "not_excluded exclude_msgs v =
     (case exclude_msgs of
        None \<Rightarrow> True
      | Some ex \<Rightarrow> find (\<lambda>msg. messageEqual msg v) ex = None)"

text \<open>The \<^verbatim>\<open>forEach\<close> of \<^verbatim>\<open>clearMessages\<close>: the messages whose deletion is started
  (\<^verbatim>\<open>actions\<close>) and \<^verbatim>\<open>newList\<close>.\<close>

fun clear_loop :: "int list \<Rightarrow> message list option \<Rightarrow> message list \<Rightarrow> message list \<times> message list" where
  "clear_loop idList exclude_msgs [] = ([], [])"
| "clear_loop idList exclude_msgs (v # vs) =
     (let (actions, newList) = clear_loop idList exclude_msgs vs
      in if chat_id v \<in> set idList
         then (if not_excluded exclude_msgs v then (v # actions, newList)
               else (actions, v # newList))
         else (actions, newList))"

text \<open>\<^verbatim>\<open>await Promise.all(actions)\<close>: throws when some delete is rejected. \<open>core_delete\<close>
  says whether the platform fulfils the deletion of a message.\<close>

definition await_all :: "(message \<Rightarrow> bool) \<Rightarrow> message list \<Rightarrow> unit run" where
  "await_all core_delete actions = (if list_all core_delete actions then run_return () else run_throw)"

text \<open>\<^verbatim>\<open>try { ... } catch (error) { }\<close>.\<close>

definition try_catch_ignore :: "unit run \<Rightarrow> unit run" where
  "try_catch_ignore m = (fst m, Some ())"

definition clearMessages ::
  "wrapper \<Rightarrow> (message \<Rightarrow> bool) \<Rightarrow> chat_arg \<Rightarrow> message list option \<Rightarrow> wrapper run" where
  "clearMessages st core_delete chatIDs exclude_msgs =
     (let idList = to_ids chatIDs;
          (actions, newList) = clear_loop idList exclude_msgs (messageList st)
      in run_then (run_emit (concat (map deleteMessage actions)))
          (run_then (try_catch_ignore (await_all core_delete actions))
            (run_return (st\<lparr>messageList := newList\<rparr>))))"

subsection \<open>Diagnostics and the authorized chats\<close>

definition getValidChats :: "wrapper \<Rightarrow> int list" where
  "getValidChats st = (if debugChat st = 0 then validChats st else debugChat st # validChats st)"

text \<open>\<^verbatim>\<open>sendError\<close> up to its first suspension: the log line and, when a debug chat is
  set, the request that mirrors it there.\<close>

definition sendError_start :: "wrapper \<Rightarrow> string \<Rightarrow> effect list" where
  "sendError_start st txt =
     Log (''Error: '' @ txt) #
     (if debugChat st = 0 then [] else [Core_sendMessage (debugChat st) (''Error: '' @ txt)])"

definition addValidChat :: "wrapper \<Rightarrow> int \<Rightarrow> effect list \<times> wrapper" where
  "addValidChat st chatID =
     (if chatID = 0 then ([], st)
      else if chatID \<notin> set (validChats st) then ([], st\<lparr>validChats := validChats st @ [chatID]\<rparr>)
      else (sendError_start st ''tried to add duplicate valid chat'', st))"

definition removeValidChat :: "wrapper \<Rightarrow> int \<Rightarrow> effect list \<times> wrapper" where
  "removeValidChat st chatID =
     (if chatID \<in> set (validChats st) then ([], st\<lparr>validChats := remove1 chatID (validChats st)\<rparr>)
      else (sendError_start st ''tried to remove non-existing valid chat'', st))"

text \<open>
  The loop of \<^verbatim>\<open>onBase\<close>. \<^verbatim>\<open>valids\<close> is read once before the loop: with no debug chat
  it is the array \<^verbatim>\<open>validChats\<close> itself, so it sees the chats the loop adds; with a
  debug chat it is a copy made before the loop.
\<close>

fun onBase_loop :: "int list \<Rightarrow> int list \<Rightarrow> wrapper \<Rightarrow> effect list \<times> wrapper" where
  "onBase_loop valids [] st = ([], st)"
| "onBase_loop valids (i # idList) st =
     (if i \<notin> set (if debugChat st = 0 then validChats st else valids)
      then (let (es, st') = addValidChat st i;
                (es', st'') = onBase_loop valids idList st'
            in (es @ es', st''))
      else onBase_loop valids idList st)"

definition onBase :: "wrapper \<Rightarrow> chat_arg \<Rightarrow> effect list \<times> wrapper" where
  "onBase st chatIDs = onBase_loop (getValidChats st) (to_ids chatIDs) st"

definition report_unsupported :: string where
  "report_unsupported = ''Received command from a chat that doesn't support it: ''"

definition report_unregistered :: string where
  "report_unregistered = ''Received message from unregistered chat: ''"

definition reportInvalidCommand :: "wrapper \<Rightarrow> message \<Rightarrow> bool \<Rightarrow> effect list" where
  "reportInvalidCommand st msg validChat =
     (let start = (if validChat then report_unsupported else report_unregistered)
      in (if debugChat st \<noteq> 0 then [Core_sendMessage (debugChat st) start] else []) @ [Log start])"

subsection \<open>The authorization gate\<close>

text \<open>The \<^verbatim>\<open>forEach\<close> over \<^verbatim>\<open>invalidList\<close>: \<^verbatim>\<open>handled = c.callback(msg, handled) || handled\<close>.\<close>

fun invalid_loop :: "message \<Rightarrow> nat \<Rightarrow> IInvalidCmd list \<Rightarrow> bool \<Rightarrow> bool run" where
  "invalid_loop msg i [] handled = run_return handled"
| "invalid_loop msg i (c # cs) handled =
     run_then (run_emit [Call_invalid i handled])
       (case inv_callback c msg handled of
          None \<Rightarrow> run_throw
        | Some b \<Rightarrow> invalid_loop msg (Suc i) cs (b \<or> handled))"

definition stale :: "wrapper \<Rightarrow> message \<Rightarrow> bool" where
  "stale st msg = (date msg * 1000 < startTime st)"

definition validCommand :: "wrapper \<Rightarrow> message \<Rightarrow> chat_arg \<Rightarrow> bool \<Rightarrow> bool run" where
  "validCommand st msg chatIDs regex_mode =
     (if stale st msg
      then run_then (run_emit [Log ''Not executing queued up command'']) (run_return False)
      else
        (let ids = to_ids chatIDs;
             valid = (chat_id msg \<in> set (getValidChats st))
         in if chat_id msg \<in> set ids then run_return True
            else if valid \<and> length ids = 0 then run_return True
            else if valid \<and> regex_mode then run_return False
            else
              run_bind (if \<not> valid then invalid_loop msg 0 (invalidList st) False
                        else run_return False)
                (\<lambda>handled.
                   run_then (if \<not> handled then run_emit (reportInvalidCommand st msg valid)
                             else run_return ())
                     (run_return False))))"

subsection \<open>Registration\<close>

definition outcome_run :: "outcome \<Rightarrow> unit run" where
  "outcome_run r = (case r of Returns \<Rightarrow> run_return () | Throws \<Rightarrow> run_throw)"

definition commandBase :: "wrapper \<Rightarrow> chat_arg \<Rightarrow> CommandCallback \<Rightarrow> message \<Rightarrow> unit run" where
  "commandBase st chatIDs cb msg =
     run_bind (validCommand st msg chatIDs False)
       (\<lambda>ok. if \<not> ok then run_return ()
              else (let content = (case msg_text msg of Some t \<Rightarrow> remove_first_word t | None \<Rightarrow> [])
                    in run_then (run_emit [Call_command content]) (outcome_run (cb msg content))))"

definition regexBase ::
  "wrapper \<Rightarrow> chat_arg \<Rightarrow> RegexCallback \<Rightarrow> message \<Rightarrow> bool \<Rightarrow> string list \<Rightarrow> unit run" where
  "regexBase st chatIDs cb msg handled result =
     run_bind (validCommand st msg chatIDs True)
       (\<lambda>ok. if \<not> ok then run_return ()
              else run_then (run_emit [Call_regex handled result])
                     (outcome_run (cb msg handled result)))"

text \<open>Calling a stored bound action.\<close>

fun apply_command_action :: "wrapper \<Rightarrow> command_action \<Rightarrow> message \<Rightarrow> unit run" where
  "apply_command_action st (CommandBase ids cb) msg = commandBase st (Ids ids) cb msg"

fun apply_regex_action ::
  "wrapper \<Rightarrow> regex_action \<Rightarrow> message \<Rightarrow> bool \<Rightarrow> string list \<Rightarrow> unit run" where
  "apply_regex_action st (RegexBase chatIDs cb) msg handled result =
     regexBase st chatIDs cb msg handled result"

definition quote :: string where
  "quote = [char_of (39 :: nat)]"

definition onCommand ::
  "wrapper \<Rightarrow> string \<Rightarrow> chat_arg \<Rightarrow> CommandCallback \<Rightarrow> string option \<Rightarrow> effect list \<times> wrapper" where
  "onCommand st cmd chatIDs cb description =
     (let (es, st1) = onBase st chatIDs
      in if match_nonword cmd
         then (es @ [Log (''Command '' @ quote @ cmd @ quote @ '' has illegal characters'')], st1)
         else if truthy (js_get ICommand_props (commandList st1) cmd)
         then (es @ [Log (''Command '' @ quote @ cmd @ quote @ '' already exists'')], st1)
         else
           (let ids = to_ids chatIDs;
                action = CommandBase ids cb
            in (es, st1\<lparr>commandList :=
                  js_set (commandList st1) (toLocaleLowerCase cmd)
                    \<lparr>command = cmd, cmd_chatIDs = ids,
                     cmd_desc = (case description of Some d \<Rightarrow> d | None \<Rightarrow> ''(empty)''),
                     cmd_callback = action\<rparr>\<rparr>)))"

definition onRegex ::
  "wrapper \<Rightarrow> nat \<Rightarrow> chat_arg \<Rightarrow> RegexCallback \<Rightarrow> string \<Rightarrow> effect list \<times> wrapper" where
  "onRegex st re chatIDs cb description =
     (let (es, st1) = onBase st chatIDs;
          ids = to_ids chatIDs;
          action = RegexBase chatIDs cb
      in (es, st1\<lparr>regexList := regexList st1 @
                 [\<lparr>regex = re, re_chatIDs = ids, re_desc = description, re_callback = action\<rparr>]\<rparr>))"

definition onButton :: "wrapper \<Rightarrow> string \<Rightarrow> ButtonCallback \<Rightarrow> wrapper" where
  "onButton st name cb =
     st\<lparr>buttonList := js_set (buttonList st) name \<lparr>btn_name = name, btn_callback = cb\<rparr>\<rparr>"

definition onAny :: "wrapper \<Rightarrow> chat_arg \<Rightarrow> AnyCallback \<Rightarrow> effect list \<times> wrapper" where
  "onAny st chatIDs cb =
     (let (es, st1) = onBase st chatIDs;
          ids = to_ids chatIDs
      in (es, st1\<lparr>anyList := anyList st1 @ [\<lparr>any_chatIDs = ids, any_callback = cb\<rparr>]\<rparr>))"

definition onAudio :: "wrapper \<Rightarrow> chat_arg \<Rightarrow> AnyCallback \<Rightarrow> effect list \<times> wrapper" where
  "onAudio st chatIDs cb =
     (let (es, st1) = onBase st chatIDs;
          ids = to_ids chatIDs
      in (es, st1\<lparr>audioList := audioList st1 @ [\<lparr>any_chatIDs = ids, any_callback = cb\<rparr>]\<rparr>))"

definition onInvalid :: "wrapper \<Rightarrow> InvalidCallback \<Rightarrow> wrapper" where
  "onInvalid st cb = st\<lparr>invalidList := invalidList st @ [\<lparr>inv_callback = cb\<rparr>]\<rparr>"

subsection \<open>The dispatcher: messages\<close>

definition deleteIfMentioned :: "wrapper \<Rightarrow> message \<Rightarrow> effect list" where
  "deleteIfMentioned st msg =
     (case botInfo st of
        None \<Rightarrow> []
      | Some username \<Rightarrow>
          if (case msg_text msg of
                None \<Rightarrow> False
              | Some t \<Rightarrow>
                  str_includes t (''@'' @ (case username of None \<Rightarrow> ''undefined'' | Some u \<Rightarrow> u)))
             \<or> reply_username msg = username
          then deleteMessage msg else [])"

text \<open>\<^verbatim>\<open>msg.text\<close> as a condition: defined and not empty.\<close>

definition has_text :: "message \<Rightarrow> bool" where
  "has_text msg = (case msg_text msg of None \<Rightarrow> False | Some t \<Rightarrow> t \<noteq> [])"

definition text_or_empty :: "message \<Rightarrow> string" where
  "text_or_empty msg = (case msg_text msg of None \<Rightarrow> [] | Some t \<Rightarrow> t)"

text \<open>
  The command stage. A truthy value of \<^verbatim>\<open>commandList[command]\<close> that is no descriptor
  has no \<^verbatim>\<open>callback\<close>, and calling it throws a TypeError.
\<close>

definition command_stage :: "wrapper \<Rightarrow> message \<Rightarrow> bool run" where
  "command_stage st msg =
     (let cmd = toLocaleLowerCase (extractCommand (text_or_empty msg))
      in if has_text msg
         then (case js_get ICommand_props (commandList st) cmd of
                 Falsy \<Rightarrow> run_return False
               | Truthy \<Rightarrow> run_then (run_emit (deleteIfMentioned st msg)) run_throw
               | Entry d \<Rightarrow>
                   run_then (run_emit (deleteIfMentioned st msg))
                     (run_then (run_emit [Invoke_command cmd])
                        (run_then (apply_command_action st (cmd_callback d) msg)
                           (run_return True))))
         else run_return False)"

text \<open>
  The loop over \<^verbatim>\<open>Object.entries(this.regexList)\<close>, in index order. Every
  \<^verbatim>\<open>value.regex.exec(msg.text)\<close> may change the object it is called on, so the loop
  carries the \<^verbatim>\<open>RegExp\<close> objects along and returns them with its run; an exception
  leaves them as the calls before it have left them.
\<close>

fun regex_loop ::
  "wrapper \<Rightarrow> message \<Rightarrow> string \<Rightarrow> nat \<Rightarrow> IRegexCmd list \<Rightarrow> bool \<Rightarrow> (nat \<Rightarrow> RegExp)
     \<Rightarrow> (nat \<Rightarrow> RegExp) \<times> bool run" where
  "regex_loop st msg txt i [] handled objs = (objs, run_return handled)"
| "regex_loop st msg txt i (v # vs) handled objs =
     (let objs' = objs(regex v := snd (RegExp_exec (objs (regex v)) txt))
      in case fst (RegExp_exec (objs (regex v)) txt) of
           None \<Rightarrow> regex_loop st msg txt (Suc i) vs handled objs'
         | Some result \<Rightarrow>
             (let action =
                    run_then (run_emit (deleteIfMentioned st msg))
                      (run_then (run_emit [Invoke_regex i handled result])
                         (apply_regex_action st (re_callback v) msg handled result))
              in (if snd action = None then objs'
                  else fst (regex_loop st msg txt (Suc i) vs True objs'),
                  run_then action (snd (regex_loop st msg txt (Suc i) vs True objs')))))"

definition regex_stage :: "wrapper \<Rightarrow> message \<Rightarrow> bool \<Rightarrow> bool run" where
  "regex_stage st msg handled =
     (if has_text msg \<and> \<not> handled
      then snd (regex_loop st msg (text_or_empty msg) 0 (regexList st) handled (regexps st))
      else run_return handled)"


text \<open>The \<^verbatim>\<open>forEach\<close> over \<^verbatim>\<open>audioList\<close> and over \<^verbatim>\<open>anyList\<close>; \<open>call\<close> names the
  effect of the list.\<close>

fun any_loop :: "(nat \<Rightarrow> bool \<Rightarrow> effect) \<Rightarrow> message \<Rightarrow> bool \<Rightarrow> nat \<Rightarrow> IAnyCmd list \<Rightarrow> unit run" where
  "any_loop call msg handled i [] = run_return ()"
| "any_loop call msg handled i (c # cs) =
     run_then
       (if chat_id msg \<in> set (any_chatIDs c) \<or> length (any_chatIDs c) = 0
        then run_then (run_emit [call i handled]) (outcome_run (any_callback c msg handled))
        else run_return ())
       (any_loop call msg handled (Suc i) cs)"

definition audio_stage :: "wrapper \<Rightarrow> message \<Rightarrow> bool \<Rightarrow> unit run" where
  "audio_stage st msg handled =
     (if voice msg \<or> audio msg then any_loop Call_audio msg handled 0 (audioList st)
      else run_return ())"

definition any_stage :: "wrapper \<Rightarrow> message \<Rightarrow> bool \<Rightarrow> unit run" where
  "any_stage st msg handled = any_loop Call_any msg handled 0 (anyList st)"

text \<open>The body of the \<^verbatim>\<open>try\<close> block of the message subscription.\<close>

definition message_body :: "wrapper \<Rightarrow> message \<Rightarrow> unit run" where
  "message_body st msg =
     run_bind (command_stage st msg)
       (\<lambda>handled. run_bind (regex_stage st msg handled)
          (\<lambda>handled. run_then (audio_stage st msg handled) (any_stage st msg handled)))"

text \<open>The message subscription: the effects of one event.\<close>

definition on_message :: "wrapper \<Rightarrow> message \<Rightarrow> effect list" where
  "on_message st msg =
     (case snd (message_body st msg) of
        Some u \<Rightarrow> fst (message_body st msg)
      | None \<Rightarrow> fst (message_body st msg) @ sendError_start st ''message error'')"


subsection \<open>The dispatcher: button presses\<close>

text \<open>
  \<open>core_send chat txt\<close> is what the platform answers to \<^verbatim>\<open>core.sendMessage\<close>: the
  message sent, or \<open>None\<close> when the request is rejected.
\<close>

definition sendMessageBase ::
  "wrapper \<Rightarrow> (int \<Rightarrow> string \<Rightarrow> message option) \<Rightarrow> string \<Rightarrow> int \<Rightarrow> (message \<times> wrapper) run" where
  "sendMessageBase st core_send txt chatID =
     (if chatID \<in> set (getValidChats st)
      then run_then (run_emit [Core_sendMessage chatID txt])
             (case core_send chatID txt of
                None \<Rightarrow> run_throw
              | Some msg \<Rightarrow> run_return (msg, messageListAppend st msg))
      else run_then
             (run_emit (sendError_start st ''trying to send a message to an invalid chat id''))
             run_throw)"

definition sendMessage ::
  "wrapper \<Rightarrow> (int \<Rightarrow> string \<Rightarrow> message option) \<Rightarrow> string \<Rightarrow> int \<Rightarrow> (message \<times> wrapper) run" where
  "sendMessage st core_send txt chatID = sendMessageBase st core_send txt chatID"

text \<open>\<^verbatim>\<open>sendError\<close>, awaited.\<close>

definition sendError ::
  "wrapper \<Rightarrow> (int \<Rightarrow> string \<Rightarrow> message option) \<Rightarrow> string \<Rightarrow> (message option \<times> wrapper) run" where
  "sendError st core_send txt =
     run_then (run_emit [Log (''Error: '' @ txt)])
       (if debugChat st = 0 then run_return (None, st)
        else run_then (run_emit [Core_sendMessage (debugChat st) (''Error: '' @ txt)])
               (case core_send (debugChat st) (''Error: '' @ txt) of
                  None \<Rightarrow> run_throw
                | Some msg \<Rightarrow> run_return (Some msg, messageListAppend st msg)))"

text \<open>\<^verbatim>\<open>this.buttonList[query.data!]\<close>: an undefined \<^verbatim>\<open>data\<close> is the key
  \<^verbatim>\<open>undefined\<close>.\<close>

definition data_key :: "callback_query \<Rightarrow> string" where
  "data_key query = (case query_data query of None \<Rightarrow> ''undefined'' | Some d \<Rightarrow> d)"

text \<open>The branch for an identifier that \<^verbatim>\<open>buttonList\<close> does not know; it ends in
  \<^verbatim>\<open>return\<close>.\<close>

definition unknown_button ::
  "wrapper \<Rightarrow> (int \<Rightarrow> string \<Rightarrow> message option) \<Rightarrow> callback_query \<Rightarrow> wrapper run" where
  "unknown_button st core_send query =
     run_then
       (run_emit (case query_message query of None \<Rightarrow> [] | Some m \<Rightarrow> deleteMessage m))
       (run_bind
          (if (case query_message query of None \<Rightarrow> False | Some m \<Rightarrow> chat_id m \<noteq> 0)
           then run_bind
                  (sendMessage st core_send ''Sorry, an error has occurred''
                     (case query_message query of None \<Rightarrow> 0 | Some m \<Rightarrow> chat_id m))
                  (\<lambda>(msg, st'). run_return (Some msg, st'))
           else sendError st core_send ''Sorry, an error has occurred in an unknown query'')
          (\<lambda>(sent, st').
             case sent of
               None \<Rightarrow> run_return st'
             | Some msg \<Rightarrow>
                 run_then (run_emit [Timer 3000])
                   (run_then (run_emit (deleteMessage msg)) (run_return st'))))"

definition answer_options :: "callback_query \<Rightarrow> string \<Rightarrow> effect" where
  "answer_options query answer =
     Core_answerCallbackQuery (query_id query)
       (if answer \<noteq> [] then Some (strip_bang answer) else None)
       (if answer \<noteq> [] then (if starts_with_bang answer then Some True else None) else None)"

text \<open>The body of the \<^verbatim>\<open>try\<close> block of the button subscription.\<close>

definition query_body ::
  "wrapper \<Rightarrow> (int \<Rightarrow> string \<Rightarrow> message option) \<Rightarrow> callback_query \<Rightarrow> wrapper run" where
  "query_body st core_send query =
     (case js_get IButtonCmd_props (buttonList st) (data_key query) of
        Falsy \<Rightarrow> unknown_button st core_send query
      | Truthy \<Rightarrow> run_throw
      | Entry d \<Rightarrow>
          run_then (run_emit [Call_button (data_key query)])
            (case btn_callback d query of
               Button_throws \<Rightarrow> run_throw
             | Str res \<Rightarrow> run_then (run_emit [answer_options query res]) (run_return st)
             | Void \<Rightarrow> run_then (run_emit [answer_options query []]) (run_return st)
             | Promise \<Rightarrow> run_then (run_emit [answer_options query []]) (run_return st)))"

text \<open>The button subscription: the effects of one press and the state it leaves. An
  exception is thrown before the outbox is touched, so the state is then unchanged.\<close>

definition on_callback_query ::
  "wrapper \<Rightarrow> (int \<Rightarrow> string \<Rightarrow> message option) \<Rightarrow> callback_query \<Rightarrow> effect list \<times> wrapper" where
  "on_callback_query st core_send query =
     (case snd (query_body st core_send query) of
        Some st' \<Rightarrow> (fst (query_body st core_send query), st')
      | None \<Rightarrow>
          (fst (query_body st core_send query) @
             sendError_start st (''query error with button '' @ data_key query), st))"

subsection \<open>Sequences of calls and sample data\<close>

text \<open>Appending entries to the outbox one at a time.\<close>

definition append_all :: "wrapper \<Rightarrow> message list \<Rightarrow> wrapper" where
  "append_all st ms = foldl messageListAppend st ms"

text \<open>A message the bot has sent to chat \<open>c\<close>, with message identifier \<open>i\<close>.\<close>

definition sent :: "int \<Rightarrow> int \<Rightarrow> message" where
  "sent c i =
     \<lparr>message_id = i, chat_id = c, date = 0, msg_text = None, voice = False, audio = False,
      reply_username = None\<rparr>"

text \<open>A wrapper whose outbox holds the messages \<open>ms\<close>.\<close>

definition outbox_of :: "message list \<Rightarrow> wrapper" where
  "outbox_of ms = (new_wrapper 0)\<lparr>messageList := ms\<rparr>"

text \<open>A text message of chat \<open>c\<close>, sent at \<open>d\<close> seconds.\<close>

definition text_msg :: "int \<Rightarrow> int \<Rightarrow> string \<Rightarrow> message" where
  "text_msg c d t =
     \<lparr>message_id = 1, chat_id = c, date = d, msg_text = Some t, voice = False, audio = False,
      reply_username = None\<rparr>"

text \<open>Callbacks of an application: ones that return, one that throws, and Invalid
  handlers that do or do not claim the event.\<close>

definition cb_command :: CommandCallback where
  "cb_command msg content = Returns"

definition cb_regex :: RegexCallback where
  "cb_regex msg handled result = Returns"


definition cb_any :: AnyCallback where
  "cb_any msg handled = Returns"

definition cb_claims :: InvalidCallback where
  "cb_claims msg handled = Some True"

definition cb_declines :: InvalidCallback where
  "cb_declines msg handled = Some False"

text \<open>The pattern \<^verbatim>\<open>/^.*/s\<close>, which matches every text, with the text as its match;
  and the pattern \<^verbatim>\<open>/^hello/g\<close>.\<close>

definition re_all :: RegExp where
  "re_all =
     \<lparr>re_search = (\<lambda>t i. if i = 0 then Some ([t], length t) else None),
      re_global = False, re_sticky = False, lastIndex = 0\<rparr>"


text \<open>
  A bot started at second 1000 with the command \<^verbatim>\<open>ping\<close> for chat 100, the command
  \<^verbatim>\<open>pong\<close> for chat 200, and two Invalid handlers.
\<close>

definition gate_bot :: wrapper where
  "gate_bot =
     onInvalid
       (onInvalid
          (snd (onCommand (snd (onCommand (new_wrapper 1000000) ''ping'' (Id 100) cb_command None))
             ''pong'' (Id 200) cb_command None))
          cb_declines)
       cb_claims"

text \<open>A bot with the command \<^verbatim>\<open>ping\<close> for chat 100.\<close>

definition ping_bot :: wrapper where
  "ping_bot = snd (onCommand (new_wrapper 1000000) ''ping'' (Id 100) cb_command None)"

text \<open>
  A bot with the command \<^verbatim>\<open>ping\<close> and a catch-all handler, both for chat 100.
\<close>

definition stale_bot :: wrapper where
  "stale_bot =
     snd (onAny (snd (onCommand (new_wrapper 1000000) ''ping'' (Id 100) cb_command None))
       (Id 100) cb_any)"

text \<open>A bot whose only authorized chat is 1, with a catch-all handler of empty scope.\<close>

definition open_bot :: wrapper where
  "open_bot = snd (onAny (snd (addValidChat (new_wrapper 1000000) 1)) (Ids []) cb_any)"

text \<open>A bot with a catch-all handler for chat 2, after chat 2 has been removed from the
  authorized chats.\<close>

definition scoped_bot :: wrapper where
  "scoped_bot = snd (removeValidChat (snd (onAny (new_wrapper 1000000) (Id 2) cb_any)) 2)"




text \<open>Two patterns for chat 1 that match every text, and the command \<^verbatim>\<open>Ping\<close>.\<close>

definition routing_bot :: wrapper where
  "routing_bot =
     snd (onCommand
       (snd (onRegex
          (snd (onRegex (new_RegExp (new_RegExp (new_wrapper 1000000) 0 re_all) 1 re_all)
             0 (Id 1) cb_regex []))
          1 (Id 1) cb_regex []))
       ''Ping'' (Id 1) cb_command None)"

definition cb_button_done :: ButtonCallback where
  "cb_button_done q = Str ''!done''"

definition cb_button_throws :: ButtonCallback where
  "cb_button_throws q = Button_throws"

text \<open>A bot authorized for chat 100, with a button that answers and one that throws.\<close>

definition button_bot :: wrapper where
  "button_bot =
     onButton (onButton (snd (addValidChat (new_wrapper 1000000) 100)) ''btn_1'' cb_button_done)
       ''btn_2'' cb_button_throws"

text \<open>A press of the button \<open>d\<close> on message 41 of chat 100.\<close>

definition press :: "string \<Rightarrow> callback_query" where
  "press d = \<lparr>query_id = ''q1'', query_data = Some d, query_message = Some (sent 100 41)\<rparr>"

text \<open>A platform that accepts every message and numbers it 42.\<close>

definition core_accepts :: "int \<Rightarrow> string \<Rightarrow> message option" where
  "core_accepts c t = Some (sent c 42)"

definition cb_command_other :: CommandCallback where
  "cb_command_other msg content = Throws"

subsection \<open>Reading a list of effects\<close>

text \<open>The kind of an effect: the collaborator or the list of handlers the call goes
  to.\<close>

datatype kind =
    Diagnostic | Deletion | Acknowledgement | Delay | Command_action | Regex_action
  | Gated_callback | Invalid_callback | Audio_callback | Any_callback | Button_callback

fun kind_of :: "effect \<Rightarrow> kind" where
  "kind_of (Log s) = Diagnostic"
| "kind_of (Core_sendMessage c s) = Diagnostic"
| "kind_of (Core_deleteMessage c i) = Deletion"
| "kind_of (Core_answerCallbackQuery q t a) = Acknowledgement"
| "kind_of (Timer n) = Delay"
| "kind_of (Invoke_command k) = Command_action"
| "kind_of (Invoke_regex i h r) = Regex_action"
| "kind_of (Call_command c) = Gated_callback"
| "kind_of (Call_regex h r) = Gated_callback"
| "kind_of (Call_audio i h) = Audio_callback"
| "kind_of (Call_any i h) = Any_callback"
| "kind_of (Call_invalid i h) = Invalid_callback"
| "kind_of (Call_button k) = Button_callback"








section \<open>Properties\<close>

subsection \<open>Runs\<close>

lemma run_bind_return [simp]: "run_bind (run_return x) f = f x"
  by (simp add: run_bind_def run_return_def)

lemma run_bind_throw [simp]: "run_bind run_throw f = run_throw"
  by (simp add: run_bind_def run_throw_def)

lemma fst_run_return [simp]: "fst (run_return x) = []"
  by (simp add: run_return_def)

lemma snd_run_return [simp]: "snd (run_return x) = Some x"
  by (simp add: run_return_def)

lemma fst_run_throw [simp]: "fst run_throw = []"
  by (simp add: run_throw_def)

lemma snd_run_throw [simp]: "snd run_throw = None"
  by (simp add: run_throw_def)

lemma run_bind_Some [simp]: "run_bind (es, Some x) f = (es @ fst (f x), snd (f x))"
  by (simp add: run_bind_def)

lemma run_bind_None [simp]: "run_bind (es, None) f = (es, None)"
  by (simp add: run_bind_def)

lemma run_then_Some [simp]: "run_then (es, Some x) m = (es @ fst m, snd m)"
  by (simp add: run_then_def)

lemma run_then_None [simp]: "run_then (es, None) m = (es, None)"
  by (simp add: run_then_def)

lemmas run_defs = run_emit_def run_return_def run_throw_def

lemma run_then_emit [simp]: "run_then (run_emit es) m = (es @ fst m, snd m)"
  by (simp add: run_then_def run_bind_def run_emit_def)

lemma run_then_return [simp]: "run_then (run_return x) m = m"
  by (simp add: run_then_def run_bind_def run_return_def)

lemma run_then_unit [simp]: "run_then ([], Some ()) m = m"
  by (simp add: run_then_def run_bind_def)

lemma fst_run_bind:
  "fst (run_bind m f) = fst m @ (case snd m of None \<Rightarrow> [] | Some x \<Rightarrow> fst (f x))"
  by (simp add: run_bind_def split: option.splits)

lemma snd_run_bind:
  "snd (run_bind m f) = (case snd m of None \<Rightarrow> None | Some x \<Rightarrow> snd (f x))"
  by (simp add: run_bind_def split: option.splits)

lemma fst_run_then:
  "fst (run_then m k) = fst m @ (case snd m of None \<Rightarrow> [] | Some x \<Rightarrow> fst k)"
  by (simp add: run_then_def fst_run_bind)

lemma snd_run_then:
  "snd (run_then m k) = (case snd m of None \<Rightarrow> None | Some x \<Rightarrow> snd k)"
  by (simp add: run_then_def snd_run_bind)

lemma fst_run_emit [simp]: "fst (run_emit es) = es"
  by (simp add: run_emit_def)

lemma snd_run_emit [simp]: "snd (run_emit es) = Some ()"
  by (simp add: run_emit_def)

lemma fst_outcome [simp]: "fst (outcome_run r) = []"
  by (cases r) (simp_all add: outcome_run_def)

lemmas run_parts = fst_run_bind snd_run_bind fst_run_then snd_run_then

subsection \<open>The command token\<close>

lemma takeWhile_word_stop:
  "list_all is_word_char t \<Longrightarrow> takeWhile is_word_char (t @ CHR '' '' # rest) = t"
  by (induction t) (auto simp: is_word_char_def)

text \<open>
  Claim C10. For a token \<open>t\<close> of word characters, not empty (the word of a command
  token \<^verbatim>\<open>/word\<close>, which is what \<^verbatim>\<open>^/\w+\<close> matches),
  \<open>extractCommand\<close> of \<^verbatim>\<open>"/" + t + " " + rest\<close> is \<open>t\<close> itself, in the case it was
  written in, whatever \<open>rest\<close> is; for a text that does not start with \<^verbatim>\<open>/\<close> the
  result is the empty string. \<open>extractCommand\<close> is a function of its argument alone: it
  reads no state and issues no effect, and the expression \<^verbatim>\<open>new RegExp('^/\\w+')\<close> is
  built anew in every call.
\<close>

theorem extractCommand_token:
  "(t \<noteq> [] \<and> list_all is_word_char t \<longrightarrow> extractCommand (''/'' @ t @ '' '' @ rest) = t)
   \<and> (take 1 s \<noteq> ''/'' \<longrightarrow> extractCommand s = [])"
proof (intro conjI impI)
  assume a: "t \<noteq> [] \<and> list_all is_word_char t"
  then have "takeWhile is_word_char (t @ CHR '' '' # rest) = t"
    by (simp add: takeWhile_word_stop)
  with a show "extractCommand (''/'' @ t @ '' '' @ rest) = t"
    by (simp add: extractCommand_def exec_slash_word_def)
next
  assume "take 1 s \<noteq> ''/''"
  then show "extractCommand s = []"
    by (cases s) (auto simp: extractCommand_def exec_slash_word_def)
qed

theorem extractCommand_token_witness:
  "extractCommand ''/Ping_2 rest'' = ''Ping_2'' \<and> extractCommand ''hello /x'' = []"
  using extractCommand_token [of "''Ping_2''" "''rest''" "''hello /x''"]
  by (simp add: is_word_char_def)

subsection \<open>The outbox\<close>

lemma messageListLength_append [simp]:
  "messageListLength (messageListAppend st m) = messageListLength st"
  by (simp add: messageListAppend_def Let_def)

lemma messageListLength_append_all [simp]:
  "messageListLength (append_all st ms) = messageListLength st"
  unfolding append_all_def by (induction ms arbitrary: st) auto

lemma append_all_snoc: "append_all st (ms @ [m]) = messageListAppend (append_all st ms) m"
  by (simp add: append_all_def)

lemma append_all_below:
  "messageList st = [] \<Longrightarrow> int (length ms) < messageListLength st \<Longrightarrow>
   messageList (append_all st ms) = ms"
proof (induction ms rule: rev_induct)
  case Nil
  then show ?case by (simp add: append_all_def)
next
  case (snoc m ms)
  then show ?case
    by (simp add: append_all_snoc messageListAppend_def Let_def)
qed

lemma slice_drop:
  "0 \<le> k \<Longrightarrow> k \<le> n \<Longrightarrow> n = int (length xs) \<Longrightarrow> slice xs k n = drop (nat k) xs"
  by (simp add: slice_def Let_def)

lemma trunc_tenths_nat: "trunc_tenths (9 * int n) = int (9 * n div 10)"
  by (simp add: trunc_tenths_def zdiv_int)

text \<open>The append that reaches the capacity keeps the entries from index
  \<open>\<lfloor>9 N / 10\<rfloor>\<close> on.\<close>

lemma append_all_full:
  assumes "messageList st = []" "int (length ms) = messageListLength st" "1 \<le> messageListLength st"
  shows "messageList (append_all st ms) = drop (9 * length ms div 10) ms"
proof -
  from assms obtain ms' m where ms: "ms = ms' @ [m]"
    by (cases ms rule: rev_cases) auto
  with assms have below: "messageList (append_all st ms') = ms'"
    by (intro append_all_below) auto
  have N: "messageListLength st = int (length ms)" using assms by simp
  have "slice ms (trunc_tenths (10 * int (length ms) - int (length ms))) (int (length ms))
          = drop (9 * length ms div 10) ms"
    using trunc_tenths_nat [of "length ms"] by (simp add: slice_drop)
  then show ?thesis
    using below ms N by (simp add: append_all_snoc messageListAppend_def Let_def)
qed

text \<open>One append later the outbox is below the capacity again, and only grows.\<close>

lemma append_all_one_more:
  assumes "messageList st = []" "int (length ms) = messageListLength st + 1" "3 \<le> messageListLength st"
  shows "messageList (append_all st ms) = drop (9 * (length ms - 1) div 10) ms"
proof -
  from assms(2,3) have "ms \<noteq> []" by auto
  then obtain ms' m where ms: "ms = ms' @ [m]"
    by (cases ms rule: rev_cases) auto
  have N: "int (length ms') = messageListLength st" using assms(2) ms by simp
  have full: "messageList (append_all st ms') = drop (9 * length ms' div 10) ms'"
    using assms(1) N assms(3) by (intro append_all_full) simp_all
  have "3 \<le> length ms'" using assms(3) N by linarith
  then have "length ms' - 9 * length ms' div 10 + 1 < length ms'" by arith
  then have "int (length (drop (9 * length ms' div 10) ms' @ [m])) < int (length ms')"
    by simp
  then have small: "\<not> messageListLength st \<le> int (length (drop (9 * length ms' div 10) ms' @ [m]))"
    using N by linarith
  have "messageList (append_all st ms) = drop (9 * length ms' div 10) ms' @ [m]"
    unfolding ms append_all_snoc messageListAppend_def Let_def full
    using small by simp
  moreover have "9 * length ms' div 10 \<le> length ms'" by simp
  ultimately show ?thesis
    using ms by simp
qed

lemma ceil_nat: "(n::nat) - 9 * n div 10 = (n + 9) div 10"
  by arith

text \<open>
  Claim C5, as the code has it. With capacity \<open>N \<ge> 1\<close> and an empty outbox, the
  \<open>N\<close>-th append is the one that truncates: after \<open>N\<close> appends the outbox holds exactly
  \<open>\<lceil>N / 10\<rceil>\<close> entries, the most recent ones. The next append only adds its entry, so
  after \<open>N + 1\<close> appends the outbox holds \<open>\<lceil>N / 10\<rceil> + 1\<close> entries (for \<open>N \<ge> 3\<close>), again the
  most recent ones.
\<close>

theorem outbox_after_capacity:
  assumes "messageList st = []" and "messageListLength st = N" and "1 \<le> N"
  shows "(int (length ms) = N \<longrightarrow>
            messageList (append_all st ms) = drop (length ms - nat ((N + 9) div 10)) ms
          \<and> int (length (messageList (append_all st ms))) = (N + 9) div 10)
       \<and> (int (length ms) = N + 1 \<and> 3 \<le> N \<longrightarrow>
            messageList (append_all st ms) = drop (length ms - (nat ((N + 9) div 10) + 1)) ms
          \<and> int (length (messageList (append_all st ms))) = (N + 9) div 10 + 1)"
proof (intro conjI impI)
  assume len: "int (length ms) = N"
  then have c: "nat ((N + 9) div 10) = (length ms + 9) div 10"
    by (metis nat_int of_nat_add of_nat_numeral zdiv_int)
  have full: "messageList (append_all st ms) = drop (9 * length ms div 10) ms"
    using assms len by (intro append_all_full) simp_all
  have k: "9 * length ms div 10 = length ms - (length ms + 9) div 10" by arith
  show "messageList (append_all st ms) = drop (length ms - nat ((N + 9) div 10)) ms"
    using full k c by simp
  have "length (messageList (append_all st ms)) = (length ms + 9) div 10"
    using full ceil_nat [of "length ms"] by simp
  then show "int (length (messageList (append_all st ms))) = (N + 9) div 10"
    using c assms(3) by linarith
next
  assume a: "int (length ms) = N + 1 \<and> 3 \<le> N"
  define n where "n = length ms - 1"
  have n: "int n = N" "length ms = n + 1" using a by (auto simp: n_def)
  then have c: "nat ((N + 9) div 10) = (n + 9) div 10"
    by (metis nat_int of_nat_add of_nat_numeral zdiv_int)
  have more: "messageList (append_all st ms) = drop (9 * n div 10) ms"
    unfolding n_def using assms a by (intro append_all_one_more) simp_all
  have k: "9 * n div 10 = n + 1 - ((n + 9) div 10 + 1)" by arith
  show "messageList (append_all st ms) = drop (length ms - (nat ((N + 9) div 10) + 1)) ms"
    using more k c n by simp
  have "length (messageList (append_all st ms)) = (n + 9) div 10 + 1"
    using more n(2) by simp
  then show "int (length (messageList (append_all st ms))) = (N + 9) div 10 + 1"
    using c a by linarith
qed

theorem outbox_after_capacity_witness:
  "messageList (append_all ((new_wrapper 0)\<lparr>messageListLength := 3\<rparr>)
      [sent 1 1, sent 1 2, sent 1 3]) = [sent 1 3]
   \<and> messageList (append_all ((new_wrapper 0)\<lparr>messageListLength := 3\<rparr>)
      [sent 1 1, sent 1 2, sent 1 3, sent 1 4]) = [sent 1 3, sent 1 4]"
  using outbox_after_capacity [of "(new_wrapper 0)\<lparr>messageListLength := 3\<rparr>" 3
      "[sent 1 1, sent 1 2, sent 1 3]"]
    outbox_after_capacity [of "(new_wrapper 0)\<lparr>messageListLength := 3\<rparr>" 3
      "[sent 1 1, sent 1 2, sent 1 3, sent 1 4]"]
  by (simp add: new_wrapper_def)

text \<open>With the capacity the constructor sets, 1000, the outbox holds 101 entries after
  1001 appends, where \<open>\<lceil>1000 / 10\<rceil> = 100\<close>.\<close>

theorem outbox_default_capacity_counterexample:
  "messageListLength (new_wrapper 0) = 1000
   \<and> length (messageList (append_all (new_wrapper 0) (map (sent 1) [1..1001]))) = 101"
proof -
  have "messageList (append_all (new_wrapper 0) (map (sent 1) [1..1001]))
        = drop (9 * (length (map (sent 1) [1..1001]) - 1) div 10) (map (sent 1) [1..1001])"
    by (intro append_all_one_more) (simp_all add: new_wrapper_def)
  then show ?thesis by (simp add: new_wrapper_def)
qed

subsection \<open>Bulk retraction\<close>

lemma not_excluded_iff:
  "not_excluded exclude_msgs v \<longleftrightarrow>
     \<not> (\<exists>ex. exclude_msgs = Some ex \<and> (\<exists>m\<in>set ex. messageEqual m v))"
  by (cases exclude_msgs) (auto simp: not_excluded_def find_None_iff)

lemma clear_loop_filter:
  "clear_loop idList exclude_msgs ms =
     ([v \<leftarrow> ms. chat_id v \<in> set idList \<and> not_excluded exclude_msgs v],
      [v \<leftarrow> ms. chat_id v \<in> set idList \<and> \<not> not_excluded exclude_msgs v])"
  by (induction ms) (auto simp: Let_def)

lemma try_catch_await [simp]:
  "try_catch_ignore (await_all core_delete actions) = ([], Some ())"
  by (simp add: try_catch_ignore_def await_all_def run_return_def run_throw_def)

text \<open>What \<open>clearMessages\<close> does, whatever the platform answers to the deletions.\<close>

lemma clearMessages_result:
  "clearMessages st core_delete chatIDs exclude_msgs =
     (map (\<lambda>v. Core_deleteMessage (chat_id v) (message_id v))
        [v \<leftarrow> messageList st. chat_id v \<in> set (to_ids chatIDs) \<and> not_excluded exclude_msgs v],
      Some (st\<lparr>messageList :=
        [v \<leftarrow> messageList st. chat_id v \<in> set (to_ids chatIDs) \<and> \<not> not_excluded exclude_msgs v]\<rparr>))"
proof -
  have "concat (map deleteMessage ms) = map (\<lambda>v. Core_deleteMessage (chat_id v) (message_id v)) ms"
    for ms by (induction ms) (simp_all add: deleteMessage_def)
  then show ?thesis
    by (simp add: clearMessages_def clear_loop_filter run_return_def Let_def)
qed

text \<open>
  Claim C8, as the code has it. Whatever the platform answers to the deletions
  (\<open>core_delete\<close>), \<open>clearMessages\<close> resolves and replaces the list. Of the stored entries
  whose chat is in scope, one that is identity-equal (same chat and message identifier) to
  no entry of \<open>exclude_msgs\<close> has its deletion requested and is absent from the retained
  list, and one that is identity-equal to an entry of \<open>exclude_msgs\<close> is in the retained
  list. (The claim's "every excluded entry remains" holds for the entries in scope only.)
\<close>

theorem clearMessages_in_scope:
  "\<exists>st'. snd (clearMessages st core_delete chatIDs exclude_msgs) = Some st'
     \<and> (\<forall>v\<in>set (messageList st). chat_id v \<in> set (to_ids chatIDs) \<longrightarrow>
          (if \<exists>ex. exclude_msgs = Some ex \<and> (\<exists>m\<in>set ex. messageEqual m v)
           then v \<in> set (messageList st')
           else Core_deleteMessage (chat_id v) (message_id v)
                  \<in> set (fst (clearMessages st core_delete chatIDs exclude_msgs))
                \<and> v \<notin> set (messageList st')))"
  by (auto simp: clearMessages_result not_excluded_iff)

theorem clearMessages_in_scope_witness:
  "clearMessages (outbox_of [sent 1 5, sent 2 7, sent 1 6]) (\<lambda>m. False) (Id 1)
     (Some [sent 1 6, sent 2 7])
   = ([Core_deleteMessage 1 5], Some (outbox_of [sent 1 6]))"
  using clearMessages_in_scope [of "outbox_of [sent 1 5, sent 2 7, sent 1 6]" "\<lambda>m. False"
      "Id 1" "Some [sent 1 6, sent 2 7]"]
  by (simp add: clearMessages_result not_excluded_def messageEqual_def sent_def outbox_of_def)

text \<open>A stored entry that is excluded but whose chat is outside the scope does not
  remain: the outbox holds one message of chat 2, the scope is chat 1, and the message is
  in the exclude list.\<close>

theorem clearMessages_excluded_counterexample:
  "sent 2 7 \<in> set (messageList (outbox_of [sent 2 7]))
   \<and> messageEqual (sent 2 7) (sent 2 7)
   \<and> clearMessages (outbox_of [sent 2 7]) (\<lambda>m. True) (Ids [1]) (Some [sent 2 7])
       = ([], Some (outbox_of []))"
  by (simp add: clearMessages_result not_excluded_def messageEqual_def sent_def outbox_of_def)

text \<open>
  Claim C9. When \<open>clearMessages\<close> resolves, the retained list is exactly the stored
  entries that are in scope and excluded, in their order. An entry whose chat is outside
  the scope is not in the retained list, and no deletion is requested in its chat.
\<close>

theorem clearMessages_retained:
  "snd (clearMessages st core_delete chatIDs exclude_msgs) =
     Some (st\<lparr>messageList :=
       [v \<leftarrow> messageList st. chat_id v \<in> set (to_ids chatIDs)
          \<and> (\<exists>ex. exclude_msgs = Some ex \<and> (\<exists>m\<in>set ex. messageEqual m v))]\<rparr>)
   \<and> (\<forall>v\<in>set (messageList st). chat_id v \<notin> set (to_ids chatIDs) \<longrightarrow>
        (\<forall>st'. snd (clearMessages st core_delete chatIDs exclude_msgs) = Some st'
           \<longrightarrow> v \<notin> set (messageList st'))
        \<and> (\<forall>i. Core_deleteMessage (chat_id v) i
              \<notin> set (fst (clearMessages st core_delete chatIDs exclude_msgs))))"
  by (auto simp: clearMessages_result not_excluded_iff)

theorem clearMessages_retained_witness:
  "clearMessages (outbox_of [sent 1 5, sent 2 7, sent 2 8]) (\<lambda>m. True) (Ids [1])
     (Some [sent 2 7, sent 1 5])
   = ([], Some (outbox_of [sent 1 5]))"
  using clearMessages_retained [of "outbox_of [sent 1 5, sent 2 7, sent 2 8]" "\<lambda>m. True"
      "Ids [1]" "Some [sent 2 7, sent 1 5]"]
  by (simp add: clearMessages_result not_excluded_def messageEqual_def sent_def outbox_of_def)

subsection \<open>Evaluating the sample bots\<close>

text \<open>The definitions a concrete registration or dispatch unfolds to.\<close>

lemmas registration_defs =
  onInvalid_def onCommand_def onRegex_def onAny_def onAudio_def onButton_def onBase_def
  new_RegExp_def getValidChats_def addValidChat_def removeValidChat_def new_wrapper_def match_nonword_def
  is_word_char_def js_get_def js_set_def js_empty_def js_inherited_def
  object_prototype_keys_def truthy_def ICommand_props_def Let_def split_def

lemma lower_ping: "toLocaleLowerCase ''ping'' = ''ping''"
  by code_simp

lemma lower_pong: "toLocaleLowerCase ''pong'' = ''pong''"
  by code_simp

lemma lower_Ping: "toLocaleLowerCase ''Ping'' = ''ping''"
  by code_simp


lemma lower_constructor: "toLocaleLowerCase ''constructor'' = ''constructor''"
  by code_simp

lemma lower_Nil: "toLocaleLowerCase [] = []"
  by (simp add: toLocaleLowerCase_def)

lemmas dispatch_defs =
  on_message_def message_body_def command_stage_def regex_stage_def audio_stage_def
  any_stage_def has_text_def text_or_empty_def extractCommand_def exec_slash_word_def
  deleteIfMentioned_def commandBase_def regexBase_def validCommand_def stale_def
  outcome_run_def reportInvalidCommand_def sendError_start_def RegExp_exec_def run_defs

lemmas button_defs =
  on_callback_query_def query_body_def unknown_button_def sendMessage_def sendMessageBase_def
  sendError_def data_key_def answer_options_def strip_bang_def starts_with_bang_def
  IButtonCmd_props_def deleteMessage_def messageListAppend_def sendError_start_def run_defs

subsection \<open>The authorization gate\<close>

lemma invalid_loop_flags:
  assumes "\<forall>c\<in>set cs. \<forall>h. inv_callback c msg h \<noteq> None"
  shows "\<exists>hs. length hs = length cs
    \<and> invalid_loop msg i cs handled =
        (map (\<lambda>(k, h). Call_invalid k h) (zip [i..<i + length cs] hs),
         Some (handled \<or> (\<exists>j<length cs. inv_callback (cs ! j) msg (hs ! j) = Some True)))
    \<and> (\<forall>k<length cs. hs ! k =
          (handled \<or> (\<exists>j<k. inv_callback (cs ! j) msg (hs ! j) = Some True)))"
  using assms
proof (induction cs arbitrary: i handled)
  case Nil
  then show ?case by (simp add: run_return_def)
next
  case (Cons c cs)
  then obtain b where b: "inv_callback c msg handled = Some b" by fastforce
  from Cons.prems have "\<forall>c\<in>set cs. \<forall>h. inv_callback c msg h \<noteq> None" by simp
  from Cons.IH [OF this, of "Suc i" "b \<or> handled"]
  obtain hs where hs: "length hs = length cs"
    "invalid_loop msg (Suc i) cs (b \<or> handled) =
        (map (\<lambda>(k, h). Call_invalid k h) (zip [Suc i..<Suc i + length cs] hs),
         Some ((b \<or> handled) \<or> (\<exists>j<length cs. inv_callback (cs ! j) msg (hs ! j) = Some True)))"
    "\<forall>k<length cs. hs ! k =
          ((b \<or> handled) \<or> (\<exists>j<k. inv_callback (cs ! j) msg (hs ! j) = Some True))"
    by blast
  have ex: "(\<exists>j<Suc n. inv_callback ((c # cs) ! j) msg ((handled # hs) ! j) = Some True)
      \<longleftrightarrow> (b \<or> (\<exists>j<n. inv_callback (cs ! j) msg (hs ! j) = Some True))" for n
    using b by (auto simp: less_Suc_eq_0_disj)
  have "length (handled # hs) = length (c # cs)" using hs(1) by simp
  moreover have "invalid_loop msg i (c # cs) handled =
        (map (\<lambda>(k, h). Call_invalid k h) (zip [i..<i + length (c # cs)] (handled # hs)),
         Some (handled \<or> (\<exists>j<length (c # cs).
            inv_callback ((c # cs) ! j) msg ((handled # hs) ! j) = Some True)))"
  proof -
    have upt: "[i..<Suc (i + length cs)] = i # [Suc i..<Suc (i + length cs)]"
      by (simp add: upt_conv_Cons del: upt_Suc)
    show ?thesis
      using b hs(2) ex [of "length cs"] by (simp add: upt del: upt_Suc) blast
  qed
  moreover have "\<forall>k<length (c # cs). (handled # hs) ! k =
          (handled \<or> (\<exists>j<k. inv_callback ((c # cs) ! j) msg ((handled # hs) ! j) = Some True))"
  proof (intro allI impI)
    fix k assume "k < length (c # cs)"
    show "(handled # hs) ! k =
          (handled \<or> (\<exists>j<k. inv_callback ((c # cs) ! j) msg ((handled # hs) ! j) = Some True))"
    proof (cases k)
      case 0
      then show ?thesis by simp
    next
      case (Suc k')
      with \<open>k < length (c # cs)\<close> have "k' < length cs" by simp
      with hs(3) have "hs ! k' = ((b \<or> handled) \<or> (\<exists>j<k'. inv_callback (cs ! j) msg (hs ! j) = Some True))"
        by blast
      then show ?thesis using Suc ex [of k'] by auto
    qed
  qed
  ultimately show ?case by blast
qed

lemma gate_bot_fields:
  "validChats gate_bot = [100, 200]"
  "debugChat gate_bot = 0"
  "startTime gate_bot = 1000000"
  "invalidList gate_bot = [\<lparr>inv_callback = cb_declines\<rparr>, \<lparr>inv_callback = cb_claims\<rparr>]"
  by (simp_all add: gate_bot_def registration_defs lower_ping lower_pong)

text \<open>
  Claim C4, as the code has it. The gate is consulted for an event that is not stale and
  whose chat is not in the handler's scope.
  \<^item> If the chat is not in the authorized-chat set, every Invalid handler is called, in
    registration order, each with the disjunction of the results returned before it
    (\<open>hs ! k\<close>); if no handler returned true an unauthorized-access report is issued, and
    the gate returns false. This is for Invalid handlers that return; one that throws
    ends the gate with its exception.
  \<^item> If the chat is in the authorized-chat set, the scope is not empty and \<open>regex_mode\<close>
    is unset, no Invalid handler is called, the report is always issued, and the gate
    returns false.
\<close>

theorem validCommand_rejects:
  assumes "\<not> stale st msg" and "chat_id msg \<notin> set (to_ids chatIDs)"
  shows "(chat_id msg \<notin> set (getValidChats st)
           \<and> (\<forall>c\<in>set (invalidList st). \<forall>h. inv_callback c msg h \<noteq> None) \<longrightarrow>
           (\<exists>hs. length hs = length (invalidList st)
              \<and> (\<forall>k<length (invalidList st).
                    hs ! k = (\<exists>j<k. inv_callback (invalidList st ! j) msg (hs ! j) = Some True))
              \<and> validCommand st msg chatIDs regex_mode =
                  (map (\<lambda>(k, h). Call_invalid k h) (zip [0..<length (invalidList st)] hs)
                   @ (if \<exists>j<length (invalidList st).
                            inv_callback (invalidList st ! j) msg (hs ! j) = Some True
                      then [] else reportInvalidCommand st msg False),
                   Some False)))
       \<and> (chat_id msg \<in> set (getValidChats st) \<and> to_ids chatIDs \<noteq> [] \<and> \<not> regex_mode \<longrightarrow>
           validCommand st msg chatIDs regex_mode = (reportInvalidCommand st msg True, Some False))"
proof (intro conjI impI)
  assume a: "chat_id msg \<notin> set (getValidChats st)
     \<and> (\<forall>c\<in>set (invalidList st). \<forall>h. inv_callback c msg h \<noteq> None)"
  then obtain hs where hs: "length hs = length (invalidList st)"
    "invalid_loop msg 0 (invalidList st) False =
        (map (\<lambda>(k, h). Call_invalid k h) (zip [0..<0 + length (invalidList st)] hs),
         Some (False \<or> (\<exists>j<length (invalidList st).
            inv_callback (invalidList st ! j) msg (hs ! j) = Some True)))"
    "\<forall>k<length (invalidList st). hs ! k =
          (False \<or> (\<exists>j<k. inv_callback (invalidList st ! j) msg (hs ! j) = Some True))"
    using invalid_loop_flags [of "invalidList st" msg 0 False] by blast
  have "validCommand st msg chatIDs regex_mode =
          (map (\<lambda>(k, h). Call_invalid k h) (zip [0..<length (invalidList st)] hs)
           @ (if \<exists>j<length (invalidList st).
                    inv_callback (invalidList st ! j) msg (hs ! j) = Some True
              then [] else reportInvalidCommand st msg False),
           Some False)"
    using assms a hs(2)
    by (simp add: validCommand_def Let_def run_defs) blast
  with hs(1,3) show "\<exists>hs. length hs = length (invalidList st)
              \<and> (\<forall>k<length (invalidList st).
                    hs ! k = (\<exists>j<k. inv_callback (invalidList st ! j) msg (hs ! j) = Some True))
              \<and> validCommand st msg chatIDs regex_mode =
                  (map (\<lambda>(k, h). Call_invalid k h) (zip [0..<length (invalidList st)] hs)
                   @ (if \<exists>j<length (invalidList st).
                            inv_callback (invalidList st ! j) msg (hs ! j) = Some True
                      then [] else reportInvalidCommand st msg False),
                   Some False)"
    by auto
next
  assume "chat_id msg \<in> set (getValidChats st) \<and> to_ids chatIDs \<noteq> [] \<and> \<not> regex_mode"
  then show "validCommand st msg chatIDs regex_mode = (reportInvalidCommand st msg True, Some False)"
    using assms
    by (simp add: validCommand_def Let_def run_defs)
qed

text \<open>Chat 999 is not authorized: both Invalid handlers are called, the second claims
  the event, and no report is issued. Chat 200 is authorized and outside the scope:
  the report alone is issued.\<close>

theorem validCommand_rejects_witness:
  "validCommand gate_bot (text_msg 999 2000 ''/ping'') (Ids [100]) True
     = ([Call_invalid 0 False, Call_invalid 1 False], Some False)
   \<and> validCommand gate_bot (text_msg 200 2000 ''/ping'') (Ids [100]) False
     = ([Log report_unsupported], Some False)"
  using validCommand_rejects [of gate_bot "text_msg 999 2000 ''/ping''" "Ids [100]" True]
    validCommand_rejects [of gate_bot "text_msg 200 2000 ''/ping''" "Ids [100]" False]
  by (simp add: validCommand_def stale_def gate_bot_fields text_msg_def getValidChats_def
      run_defs cb_declines_def cb_claims_def reportInvalidCommand_def)

text \<open>
  The same bot has Invalid handlers, yet for the authorized chat 200 outside the scope
  none is called and the report is issued. And a chat that is in the scope passes the
  gate although it is not in the authorized-chat set (chat 100 after its removal).
\<close>

theorem validCommand_invalid_handlers_counterexample:
  "\<not> stale gate_bot (text_msg 200 2000 ''/ping'')
   \<and> 200 \<in> set (getValidChats gate_bot) \<and> 200 \<notin> set (to_ids (Ids [100]))
   \<and> length (invalidList gate_bot) = 2
   \<and> validCommand gate_bot (text_msg 200 2000 ''/ping'') (Ids [100]) False
       = ([Log report_unsupported], Some False)
   \<and> 100 \<notin> set (getValidChats (snd (removeValidChat gate_bot 100)))
   \<and> validCommand (snd (removeValidChat gate_bot 100)) (text_msg 100 2000 ''/ping'') (Ids [100]) False
       = ([], Some True)"
  by (simp add: validCommand_def stale_def gate_bot_fields text_msg_def getValidChats_def
      run_defs reportInvalidCommand_def removeValidChat_def)

subsection \<open>What each stage of the dispatcher issues\<close>

lemma kind_invalid_loop:
  "e \<in> set (fst (invalid_loop msg i cs h)) \<Longrightarrow> kind_of e = Invalid_callback"
proof (induction cs arbitrary: i h)
  case Nil
  then show ?case by simp
next
  case (Cons c cs)
  then show ?case
    by (cases "inv_callback c msg h") (auto simp: run_parts)
qed

lemma kind_report: "e \<in> set (reportInvalidCommand st msg v) \<Longrightarrow> kind_of e = Diagnostic"
  by (auto simp: reportInvalidCommand_def Let_def split: if_splits)

lemma kind_validCommand:
  "e \<in> set (fst (validCommand st msg chatIDs r)) \<Longrightarrow>
   kind_of e = Diagnostic \<or> kind_of e = Invalid_callback"
  by (auto simp: validCommand_def Let_def run_parts
      dest: kind_invalid_loop kind_report split: if_splits option.splits)

lemma stale_validCommand:
  "stale st msg \<Longrightarrow>
   validCommand st msg chatIDs r = ([Log ''Not executing queued up command''], Some False)"
  by (simp add: validCommand_def run_defs)

lemma kind_commandBase:
  "e \<in> set (fst (commandBase st chatIDs cb msg)) \<Longrightarrow>
   kind_of e = Diagnostic \<or> kind_of e = Invalid_callback \<or> kind_of e = Gated_callback"
  by (auto simp: commandBase_def Let_def run_parts
      dest: kind_validCommand split: if_splits option.splits)

lemma kind_regexBase:
  "e \<in> set (fst (regexBase st chatIDs cb msg h res)) \<Longrightarrow>
   kind_of e = Diagnostic \<or> kind_of e = Invalid_callback \<or> kind_of e = Gated_callback"
  by (auto simp: regexBase_def Let_def run_parts
      dest: kind_validCommand split: if_splits option.splits)

lemma stale_commandBase:
  "stale st msg \<Longrightarrow> e \<in> set (fst (commandBase st chatIDs cb msg)) \<Longrightarrow> kind_of e = Diagnostic"
  by (auto simp: commandBase_def stale_validCommand)

lemma stale_regexBase:
  "stale st msg \<Longrightarrow> e \<in> set (fst (regexBase st chatIDs cb msg h res)) \<Longrightarrow>
   kind_of e = Diagnostic"
  by (auto simp: regexBase_def stale_validCommand)

lemma kind_apply_command:
  "e \<in> set (fst (apply_command_action st a msg)) \<Longrightarrow>
   kind_of e = Diagnostic \<or> kind_of e = Invalid_callback \<or> kind_of e = Gated_callback"
  by (cases a) (auto dest: kind_commandBase)

lemma kind_apply_regex:
  "e \<in> set (fst (apply_regex_action st a msg h res)) \<Longrightarrow>
   kind_of e = Diagnostic \<or> kind_of e = Invalid_callback \<or> kind_of e = Gated_callback"
  by (cases a) (auto dest: kind_regexBase)

lemma stale_apply_command:
  "stale st msg \<Longrightarrow> e \<in> set (fst (apply_command_action st a msg)) \<Longrightarrow>
   kind_of e = Diagnostic"
  by (cases a) (auto dest: stale_commandBase)

lemma stale_apply_regex:
  "stale st msg \<Longrightarrow> e \<in> set (fst (apply_regex_action st a msg h res)) \<Longrightarrow>
   kind_of e = Diagnostic"
  by (cases a) (auto dest: stale_regexBase)

lemma kind_deleteIfMentioned:
  "e \<in> set (deleteIfMentioned st msg) \<Longrightarrow> kind_of e = Deletion"
  by (auto simp: deleteIfMentioned_def deleteMessage_def split: option.splits if_splits)

lemma kind_sendError_start: "e \<in> set (sendError_start st t) \<Longrightarrow> kind_of e = Diagnostic"
  by (auto simp: sendError_start_def split: if_splits)

lemma kind_command_stage:
  "e \<in> set (fst (command_stage st msg)) \<Longrightarrow>
   kind_of e \<in> {Deletion, Command_action, Diagnostic, Invalid_callback, Gated_callback}"
  by (auto simp: command_stage_def Let_def run_parts
      dest: kind_deleteIfMentioned kind_apply_command
      split: if_splits option.splits js_lookup.splits)

lemma stale_command_stage:
  "stale st msg \<Longrightarrow> e \<in> set (fst (command_stage st msg)) \<Longrightarrow>
   kind_of e \<in> {Deletion, Command_action, Diagnostic}"
  by (auto simp: command_stage_def Let_def run_parts
      dest: kind_deleteIfMentioned stale_apply_command
      split: if_splits option.splits js_lookup.splits)

lemma kind_regex_loop:
  "e \<in> set (fst (snd (regex_loop st msg t i vs h objs))) \<Longrightarrow>
   kind_of e \<in> {Deletion, Regex_action, Diagnostic, Invalid_callback, Gated_callback}"
proof (induction vs arbitrary: i h objs)
  case Nil
  then show ?case by simp
next
  case (Cons v vs)
  then show ?case
    by (auto simp: run_parts Let_def dest: kind_deleteIfMentioned kind_apply_regex
        split: if_splits option.splits)
qed

lemma stale_regex_loop:
  "stale st msg \<Longrightarrow> e \<in> set (fst (snd (regex_loop st msg t i vs h objs))) \<Longrightarrow>
   kind_of e \<in> {Deletion, Regex_action, Diagnostic}"
proof (induction vs arbitrary: i h objs)
  case Nil
  then show ?case by simp
next
  case (Cons v vs)
  then show ?case
    by (auto simp: run_parts Let_def dest: kind_deleteIfMentioned stale_apply_regex
        split: if_splits option.splits)
qed

lemma any_loop_sound:
  "e \<in> set (fst (any_loop call msg h i cs)) \<Longrightarrow>
   \<exists>k<length cs. e = call (i + k) h
      \<and> (chat_id msg \<in> set (any_chatIDs (cs ! k)) \<or> any_chatIDs (cs ! k) = [])"
proof (induction cs arbitrary: i)
  case Nil
  then show ?case by simp
next
  case (Cons c cs)
  from Cons.prems consider
    (head) "e = call i h" "chat_id msg \<in> set (any_chatIDs c) \<or> any_chatIDs c = []"
    | (tail) "e \<in> set (fst (any_loop call msg h (Suc i) cs))"
    by (auto simp: run_parts split: if_splits option.splits)
  then show ?case
  proof cases
    case head
    then show ?thesis by (intro exI [of _ 0]) simp
  next
    case tail
    from Cons.IH [OF this] obtain k where "k < length cs" "e = call (Suc i + k) h"
      "chat_id msg \<in> set (any_chatIDs (cs ! k)) \<or> any_chatIDs (cs ! k) = []" by blast
    then show ?thesis by (intro exI [of _ "Suc k"]) simp
  qed
qed

lemma any_loop_complete:
  "snd (any_loop call msg h i cs) \<noteq> None \<Longrightarrow> k < length cs \<Longrightarrow>
   chat_id msg \<in> set (any_chatIDs (cs ! k)) \<or> any_chatIDs (cs ! k) = [] \<Longrightarrow>
   call (i + k) h \<in> set (fst (any_loop call msg h i cs))"
proof (induction cs arbitrary: i k)
  case Nil
  then show ?case by simp
next
  case (Cons c cs)
  show ?case
  proof (cases k)
    case 0
    with Cons.prems show ?thesis by (auto simp: run_parts)
  next
    case (Suc k')
    from Cons.prems(1) have "snd (any_loop call msg h (Suc i) cs) \<noteq> None"
      by (auto simp: run_parts split: if_splits option.splits)
    from Cons.IH [OF this, of k'] Cons.prems Suc
    have "call (Suc i + k') h \<in> set (fst (any_loop call msg h (Suc i) cs))" by simp
    moreover from Cons.prems(1)
    have "snd (if chat_id msg \<in> set (any_chatIDs c) \<or> length (any_chatIDs c) = 0
        then run_then (run_emit [call i h]) (outcome_run (any_callback c msg h))
        else run_return ()) \<noteq> None"
      by (auto simp: run_parts split: if_splits option.splits)
    ultimately show ?thesis using Suc
      by (auto simp: run_parts split: option.splits)
  qed
qed

lemma kind_audio_stage:
  "e \<in> set (fst (audio_stage st msg h)) \<Longrightarrow> kind_of e = Audio_callback"
  by (auto simp: audio_stage_def dest!: any_loop_sound split: if_splits)

lemma kind_any_stage:
  "e \<in> set (fst (any_stage st msg h)) \<Longrightarrow> kind_of e = Any_callback"
  by (auto simp: any_stage_def dest!: any_loop_sound)

lemma kind_regex_stage:
  "e \<in> set (fst (regex_stage st msg h)) \<Longrightarrow>
   kind_of e \<in> {Deletion, Regex_action, Diagnostic, Invalid_callback, Gated_callback}"
  by (auto simp: regex_stage_def dest: kind_regex_loop split: if_splits)

lemma stale_regex_stage:
  "stale st msg \<Longrightarrow> e \<in> set (fst (regex_stage st msg h)) \<Longrightarrow>
   kind_of e \<in> {Deletion, Regex_action, Diagnostic}"
  by (auto simp: regex_stage_def dest: stale_regex_loop split: if_splits)

lemma message_body_parts:
  "e \<in> set (fst (message_body st msg)) \<Longrightarrow>
   e \<in> set (fst (command_stage st msg))
   \<or> (\<exists>h. e \<in> set (fst (regex_stage st msg h)))
   \<or> (\<exists>h. e \<in> set (fst (audio_stage st msg h)))
   \<or> (\<exists>h. snd (audio_stage st msg h) \<noteq> None \<and> e \<in> set (fst (any_stage st msg h)))"
  by (auto simp: message_body_def run_parts split: option.splits)

lemma on_message_parts:
  "e \<in> set (on_message st msg) \<Longrightarrow>
   e \<in> set (fst (message_body st msg)) \<or> e \<in> set (sendError_start st ''message error'')"
  by (auto simp: on_message_def split: option.splits)

lemma stale_on_message:
  assumes "stale st msg" "e \<in> set (on_message st msg)"
  shows "kind_of e \<in> {Deletion, Command_action, Regex_action, Diagnostic, Audio_callback, Any_callback}"
  using on_message_parts [OF assms(2)]
proof
  assume "e \<in> set (fst (message_body st msg))"
  from message_body_parts [OF this] show ?thesis
    using stale_command_stage [OF assms(1), of e] stale_regex_stage [OF assms(1), of e]
      kind_audio_stage [of e st msg] kind_any_stage [of e st msg]
    by auto
next
  assume "e \<in> set (sendError_start st ''message error'')"
  then show ?thesis by (auto dest: kind_sendError_start)
qed

subsection \<open>Stale events\<close>

text \<open>
  Claim C1, as the code has it. The timestamp is checked in \<open>validCommand\<close>, which the
  bound actions of commands and patterns consult. For an event whose \<^verbatim>\<open>date\<close>, in
  milliseconds, is before the start time, no command callback and no pattern callback of
  the application is called, whatever the text matches, and no Invalid handler either:
  the bound action is called and returns at the gate. Audio and catch-all handlers are
  called without consulting the gate, so the timestamp does not keep an event from them.
\<close>

theorem stale_event_gated:
  assumes "stale st msg"
  shows "(\<forall>content. Call_command content \<notin> set (on_message st msg))
       \<and> (\<forall>handled result. Call_regex handled result \<notin> set (on_message st msg))
       \<and> (\<forall>i handled. Call_invalid i handled \<notin> set (on_message st msg))"
  using stale_on_message [OF assms] by fastforce

theorem stale_event_gated_witness:
  "stale stale_bot (text_msg 100 500 ''/ping'')
   \<and> (\<forall>content. Call_command content \<notin> set (on_message stale_bot (text_msg 100 500 ''/ping'')))"
  using stale_event_gated [of stale_bot "text_msg 100 500 ''/ping''"]
  by (simp add: stale_bot_def registration_defs stale_def text_msg_def)

text \<open>The event was sent at second 500, the bot started at second 1000, and the text
  is the registered command: the catch-all handler of the chat is called.\<close>

theorem stale_event_catch_all_counterexample:
  "stale stale_bot (text_msg 100 500 ''/ping'')
   \<and> on_message stale_bot (text_msg 100 500 ''/ping'')
       = [Invoke_command ''ping'', Log ''Not executing queued up command'', Call_any 0 True]"
  by (simp add: stale_bot_def registration_defs dispatch_defs text_msg_def cb_any_def
      lower_ping)

subsection \<open>Catch-all handlers\<close>

lemma any_stage_only:
  assumes "Call_any i h \<in> set (on_message st msg)"
  shows "\<exists>h'. Call_any i h \<in> set (fst (any_stage st msg h'))"
proof -
  from on_message_parts [OF assms] have "Call_any i h \<in> set (fst (message_body st msg))"
    by (auto dest: kind_sendError_start)
  from message_body_parts [OF this] show ?thesis
    by (auto dest: kind_command_stage kind_regex_stage kind_audio_stage)
qed

text \<open>
  Claim C3, as the code has it. The catch-all stage does not consult the authorized-chat
  set. The handler at index \<open>i\<close> is called only for an event whose chat is in its scope
  or when its scope is empty; and it is called for every such event, from an authorized
  chat or not, provided the processing of the event raises no exception before (an
  exception ends the processing of the event). So a handler of empty scope is called for
  the events of every chat, and a handler of scope \<open>[B]\<close> exactly for the events of \<open>B\<close>.
\<close>

theorem catch_all_scope:
  assumes "i < length (anyList st)"
  shows "((\<exists>h. Call_any i h \<in> set (on_message st msg)) \<longrightarrow>
            chat_id msg \<in> set (any_chatIDs (anyList st ! i)) \<or> any_chatIDs (anyList st ! i) = [])
       \<and> (snd (message_body st msg) \<noteq> None
            \<and> (chat_id msg \<in> set (any_chatIDs (anyList st ! i)) \<or> any_chatIDs (anyList st ! i) = [])
          \<longrightarrow> (\<exists>h. Call_any i h \<in> set (on_message st msg)))"
proof (intro conjI impI)
  assume "\<exists>h. Call_any i h \<in> set (on_message st msg)"
  then obtain h where "Call_any i h \<in> set (on_message st msg)" by blast
  from any_stage_only [OF this] obtain h' where
    "Call_any i h \<in> set (fst (any_loop Call_any msg h' 0 (anyList st)))"
    by (auto simp: any_stage_def)
  from any_loop_sound [OF this]
  show "chat_id msg \<in> set (any_chatIDs (anyList st ! i)) \<or> any_chatIDs (anyList st ! i) = []"
    by auto
next
  assume a: "snd (message_body st msg) \<noteq> None
     \<and> (chat_id msg \<in> set (any_chatIDs (anyList st ! i)) \<or> any_chatIDs (anyList st ! i) = [])"
  then obtain h1 h2 where stages:
    "snd (command_stage st msg) = Some h1" "snd (regex_stage st msg h1) = Some h2"
    "snd (audio_stage st msg h2) \<noteq> None" "snd (any_stage st msg h2) \<noteq> None"
    by (auto simp: message_body_def run_parts split: option.splits)
  then have "Call_any (0 + i) h2 \<in> set (fst (any_loop Call_any msg h2 0 (anyList st)))"
    using a assms by (intro any_loop_complete) (auto simp: any_stage_def)
  then have "Call_any i h2 \<in> set (fst (message_body st msg))"
    using stages by (auto simp: message_body_def run_parts any_stage_def split: option.splits)
  then have "Call_any i h2 \<in> set (on_message st msg)"
    by (auto simp: on_message_def split: option.splits)
  then show "\<exists>h. Call_any i h \<in> set (on_message st msg)" ..
qed

text \<open>Chat 2 is in the scope of the handler and not authorized; chat 1 is neither.\<close>

theorem catch_all_scope_witness:
  "getValidChats scoped_bot = []
   \<and> on_message scoped_bot (text_msg 2 2000 ''hello'') = [Call_any 0 False]
   \<and> on_message scoped_bot (text_msg 1 2000 ''hello'') = []"
  using catch_all_scope [of 0 scoped_bot "text_msg 2 2000 ''hello''"]
    catch_all_scope [of 0 scoped_bot "text_msg 1 2000 ''hello''"]
  by (simp add: scoped_bot_def registration_defs dispatch_defs text_msg_def cb_any_def
      lower_Nil)

text \<open>Chat 1 is authorized and chat 2 is not; the handler of empty scope is called for
  an event of chat 2.\<close>

theorem catch_all_unauthorized_counterexample:
  "getValidChats open_bot = [1]
   \<and> map any_chatIDs (anyList open_bot) = [[]]
   \<and> on_message open_bot (text_msg 2 2000 ''hello'') = [Call_any 0 False]"
  by (simp add: open_bot_def registration_defs dispatch_defs text_msg_def cb_any_def
      lower_Nil)

subsection \<open>Commands before patterns\<close>
























subsection \<open>Button presses\<close>

lemma kind_sendMessageBase:
  "e \<in> set (fst (sendMessageBase st core_send t c)) \<Longrightarrow> kind_of e = Diagnostic"
  by (auto simp: sendMessageBase_def run_parts dest: kind_sendError_start
      split: if_splits option.splits)

lemma kind_sendError:
  "e \<in> set (fst (sendError st core_send t)) \<Longrightarrow> kind_of e = Diagnostic"
  by (auto simp: sendError_def run_parts split: if_splits option.splits)

lemma kind_unknown_button:
  "e \<in> set (fst (unknown_button st core_send query)) \<Longrightarrow>
   kind_of e \<in> {Deletion, Diagnostic, Delay}"
  by (auto simp: unknown_button_def sendMessage_def run_parts deleteMessage_def
      dest: kind_sendMessageBase kind_sendError
      split: if_splits option.splits prod.splits)

text \<open>
  Claim C6, as the code has it. A press is acknowledged exactly when \<^verbatim>\<open>buttonList\<close>
  holds a descriptor for its identifier and the callback of the button returns: the
  callback is called and then \<^verbatim>\<open>answerCallbackQuery\<close> is called with the identifier of
  the query, and with the string the callback returned, if it returned one. In every
  other case (an unknown or stale identifier, whose branch ends in \<^verbatim>\<open>return\<close>, and a
  callback that throws, whose exception goes to the error report) no acknowledgement is
  issued.
\<close>

theorem acknowledged_when_callback_returns:
  "(\<forall>d. js_get IButtonCmd_props (buttonList st) (data_key query) = Entry d
         \<and> btn_callback d query \<noteq> Button_throws \<longrightarrow>
       on_callback_query st core_send query =
         ([Call_button (data_key query),
           answer_options query (case btn_callback d query of Str res \<Rightarrow> res | _ \<Rightarrow> [])], st))
   \<and> ((\<nexists>d. js_get IButtonCmd_props (buttonList st) (data_key query) = Entry d
            \<and> btn_callback d query \<noteq> Button_throws) \<longrightarrow>
       (\<forall>e\<in>set (fst (on_callback_query st core_send query)). kind_of e \<noteq> Acknowledgement))"
proof (intro conjI allI impI)
  fix d
  assume "js_get IButtonCmd_props (buttonList st) (data_key query) = Entry d
         \<and> btn_callback d query \<noteq> Button_throws"
  then show "on_callback_query st core_send query =
         ([Call_button (data_key query),
           answer_options query (case btn_callback d query of Str res \<Rightarrow> res | _ \<Rightarrow> [])], st)"
    by (cases "btn_callback d query")
      (simp_all add: on_callback_query_def query_body_def run_defs)
next
  assume a: "\<nexists>d. js_get IButtonCmd_props (buttonList st) (data_key query) = Entry d
            \<and> btn_callback d query \<noteq> Button_throws"
  show "\<forall>e\<in>set (fst (on_callback_query st core_send query)). kind_of e \<noteq> Acknowledgement"
  proof (cases "js_get IButtonCmd_props (buttonList st) (data_key query)")
    case (Entry d)
    with a have "btn_callback d query = Button_throws" by simp
    with Entry show ?thesis
      by (auto simp: on_callback_query_def query_body_def run_defs dest: kind_sendError_start)
  next
    case Truthy
    then show ?thesis
      by (auto simp: on_callback_query_def query_body_def run_defs dest: kind_sendError_start)
  next
    case Falsy
    then show ?thesis
      by (auto simp: on_callback_query_def query_body_def
          dest: kind_sendError_start kind_unknown_button split: option.splits)
  qed
qed

theorem acknowledged_when_callback_returns_witness:
  "on_callback_query button_bot core_accepts (press ''btn_1'')
     = ([Call_button ''btn_1'', Core_answerCallbackQuery ''q1'' (Some ''done'') (Some True)],
        button_bot)"
  using acknowledged_when_callback_returns [of button_bot "press ''btn_1''" core_accepts]
  by (simp add: button_bot_def press_def registration_defs button_defs cb_button_done_def)

text \<open>A press with an identifier that is not registered, and a press of a button whose
  callback throws: neither is acknowledged.\<close>

theorem unacknowledged_press_counterexample:
  "fst (on_callback_query button_bot core_accepts (press ''btn_999''))
     = [Core_deleteMessage 100 41, Core_sendMessage 100 ''Sorry, an error has occurred'',
        Timer 3000, Core_deleteMessage 100 42]
   \<and> fst (on_callback_query button_bot core_accepts (press ''btn_2''))
     = [Call_button ''btn_2'', Log ''Error: query error with button btn_2'']"
  by (simp add: button_bot_def press_def registration_defs button_defs cb_button_throws_def
      core_accepts_def sent_def)

subsection \<open>Registering a command twice\<close>

text \<open>
  Claim C2 at the registrations \<^verbatim>\<open>onCommand('Ping', 100, cb, 'first')\<close> and then
  \<^verbatim>\<open>onCommand('Ping', 100, cb', 'second')\<close>. \<open>onCommand\<close> looks for the token as it is
  written, \<^verbatim>\<open>commandList['Ping']\<close>, and stores under the case-folded key
  \<^verbatim>\<open>ping\<close>: the second registration finds nothing, logs nothing, and replaces the
  descriptor of the first.
\<close>

theorem duplicate_command_replaces_first:
  "onCommand (snd (onCommand (new_wrapper 0) ''Ping'' (Id 100) cb_command (Some ''first'')))
      ''Ping'' (Id 100) cb_command_other (Some ''second'')
   = ([], (new_wrapper 0)\<lparr>validChats := [100],
        commandList := \<lparr>own = [''ping'' \<mapsto> \<lparr>command = ''Ping'', cmd_chatIDs = [100],
           cmd_desc = ''second'', cmd_callback = CommandBase [100] cb_command_other\<rparr>],
          proto = None\<rparr>\<rparr>)"
  by (simp add: registration_defs lower_Ping)


subsection \<open>Scenarios\<close>

text \<open>The command \<^verbatim>\<open>ping\<close> is registered for chat 100. An event of chat 100 with
  the text \<^verbatim>\<open>/ping\<close>, sent after the start, reaches the callback with an empty
  content.\<close>

theorem ping_from_its_chat:
  "on_message ping_bot (text_msg 100 2000 ''/ping'') = [Invoke_command ''ping'', Call_command []]"
  by (simp add: ping_bot_def registration_defs dispatch_defs text_msg_def cb_command_def
      lower_ping remove_first_word_def)

text \<open>The same text from chat 999 does not reach the callback, and the event is
  reported as coming from an unregistered chat.\<close>

theorem ping_from_unknown_chat:
  "on_message ping_bot (text_msg 999 2000 ''/ping'')
     = [Invoke_command ''ping'', Log report_unregistered]"
  by (simp add: ping_bot_def registration_defs dispatch_defs text_msg_def lower_ping)

text \<open>
  \<^verbatim>\<open>commandList\<close> is a plain object, so \<^verbatim>\<open>commandList['constructor']\<close> is truthy
  although no such command is registered, and calling its \<^verbatim>\<open>callback\<close> throws. An event
  whose text starts with \<^verbatim>\<open>/constructor\<close> ends in the error report: the two patterns
  of the bot, which match every text, are not tried.
\<close>

theorem inherited_key_ends_event:
  "on_message routing_bot (text_msg 1 2000 ''/constructor now'') = [Log ''Error: message error'']"
  by (simp add: routing_bot_def registration_defs dispatch_defs text_msg_def lower_Ping
      lower_constructor)

end
